theory Spec2Isabelle
  imports Complex_Main
begin

section \<open>The main script of the state-representation experiment (src/code/main.py)\<close>

text \<open>
  The script parses its command line, checks the configuration, seeds the random
  source, loads the training data, builds the priors model and then either learns
  the representation in one call or runs the Q-learning experiment: one training
  epoch, ten fitted-Q-iteration trials, repeated \<open>num_epochs\<close> times. It ends with
  the plots.

  The modules the script imports (tools, jonschkowski_priors, fqiteration, gym_env,
  gym_round_bot) and the libraries (os, time, numpy.random, matplotlib, sklearn) are
  collaborators: each call is a field of the record \<open>collaborators\<close>, a function of
  the outside world \<open>'w\<close> that returns a value or raises, and a new world. The
  objects they hand back (arrays of states, the model, a policy, an agent, the
  environment) are opaque values of type \<open>'obj\<close>. Every call is written to a trace
  with its arguments and its outcome.
\<close>

subsection \<open>Python floats\<close>

text \<open>
  A Python float is an IEEE double: a finite value (the positive zero is \<open>Fin 0\<close>),
  the negative zero, the two infinities or a NaN. The finite values are carried as
  reals; the rounding of a quotient of finite values is the parameter \<open>fp_round\<close> of
  the collaborators.
\<close>

datatype pyfloat = Fin real | NegZero | PInf | NInf | NaN

fun fin_val :: "pyfloat \<Rightarrow> real" where
  "fin_val (Fin x) = x"
| "fin_val _ = 0"

text \<open>\<open>a <= b\<close> on floats: false as soon as one side is a NaN.\<close>

fun fle :: "pyfloat \<Rightarrow> pyfloat \<Rightarrow> bool" where
  "fle NaN _ = False"
| "fle _ NaN = False"
| "fle NInf _ = True"
| "fle _ PInf = True"
| "fle PInf _ = False"
| "fle _ NInf = False"
| "fle a b = (fin_val a \<le> fin_val b)"

definition fge :: "pyfloat \<Rightarrow> pyfloat \<Rightarrow> bool" where
  "fge a b = fle b a"

definition flt :: "pyfloat \<Rightarrow> pyfloat \<Rightarrow> bool" where
  "flt a b = (fle a b \<and> \<not> fle b a)"

fun is_nan :: "pyfloat \<Rightarrow> bool" where
  "is_nan NaN = True"
| "is_nan _ = False"

fun is_inf :: "pyfloat \<Rightarrow> bool" where
  "is_inf PInf = True"
| "is_inf NInf = True"
| "is_inf _ = False"

fun is_zero :: "pyfloat \<Rightarrow> bool" where
  "is_zero (Fin x) = (x = 0)"
| "is_zero NegZero = True"
| "is_zero _ = False"

fun is_finite :: "pyfloat \<Rightarrow> bool" where
  "is_finite (Fin x) = True"
| "is_finite NegZero = True"
| "is_finite _ = False"

fun sign_bit :: "pyfloat \<Rightarrow> bool" where
  "sign_bit (Fin x) = (x < 0)"
| "sign_bit NegZero = True"
| "sign_bit NInf = True"
| "sign_bit _ = False"

text \<open>
  \<open>a / b\<close> as numpy computes it on float64 (warnings are ignored, line 33, and numpy
  does not raise on a zero divisor): NaN for a NaN operand, for inf/inf and for 0/0;
  a signed infinity for inf/x and for x/0; a signed zero for 0/x and for x/inf; the
  rounded quotient otherwise.
\<close>

definition fdiv :: "(real \<Rightarrow> pyfloat) \<Rightarrow> pyfloat \<Rightarrow> pyfloat \<Rightarrow> pyfloat" where
  "fdiv rnd a b =
     (if is_nan a \<or> is_nan b then NaN
      else if is_inf a \<and> is_inf b then NaN
      else if is_zero a \<and> is_zero b then NaN
      else if is_inf a \<or> is_zero b then (if sign_bit a = sign_bit b then PInf else NInf)
      else if is_zero a \<or> is_inf b then (if sign_bit a = sign_bit b then Fin 0 else NegZero)
      else rnd (fin_val a / fin_val b))"

subsection \<open>Errors\<close>

datatype error =
    Exception string
  | ValueError string
  | IndexError
  | NameError string
  | OverflowError
  | External string

text \<open>\<open>int(x)\<close> on a float truncates towards zero and raises on an infinity or a NaN.\<close>

fun py_int :: "pyfloat \<Rightarrow> error + int" where
  "py_int (Fin x) = Inr (if 0 \<le> x then \<lfloor>x\<rfloor> else \<lceil>x\<rceil>)"
| "py_int NegZero = Inr 0"
| "py_int PInf = Inl OverflowError"
| "py_int NInf = Inl OverflowError"
| "py_int NaN = Inl (ValueError ''cannot convert float NaN to integer'')"

subsection \<open>The command line (lines 37 to 58)\<close>

type_synonym weights = "pyfloat \<times> pyfloat \<times> pyfloat \<times> pyfloat"

text \<open>\<open>args.weights[i]\<close> for the four positions of \<open>--weights wt wp wc wr\<close>.\<close>

fun weight_at :: "weights \<Rightarrow> nat \<Rightarrow> pyfloat" where
  "weight_at (wt, wp, wc, wr) i =
     (if i = 0 then wt else if i = 1 then wp else if i = 2 then wc else wr)"

record cli_args =
  training_data :: string
  test_data :: string
  qlearning :: bool
  recordto :: string
  num_epochs :: int
  learning_rate :: pyfloat
  l1_reg :: pyfloat
  state_dim :: int
  validation_ratio :: pyfloat
  batch_size :: int
  seed :: "int option"
  tanh_units :: "int option"
  weights :: weights
  display :: bool
  visible_train :: bool
  verbose :: bool

text \<open>The defaults of the parser; \<open>--training_data\<close> is required.\<close>

definition default_args :: "string \<Rightarrow> cli_args" where
  "default_args trd =
     \<lparr> training_data = trd, test_data = [], qlearning = False, recordto = [],
       num_epochs = 25, learning_rate = Fin (1 / 10000), l1_reg = Fin (1 / 1000),
       state_dim = 2, validation_ratio = Fin (1 / 10), batch_size = 256,
       seed = None, tanh_units = None,
       weights = (Fin 1, Fin 5, Fin 1, Fin 5),
       display = False, visible_train = False, verbose = False \<rparr>"

subsection \<open>The configuration checks (lines 60 to 73)\<close>

text \<open>Lines 60 and 61: a record folder given without its final slash gets one.\<close>

definition normalize_recordto :: "cli_args \<Rightarrow> cli_args" where
  "normalize_recordto a =
     (if recordto a \<noteq> [] \<and> last (recordto a) \<noteq> CHR ''/''
      then a\<lparr>recordto := recordto a @ ''/''\<rparr> else a)"

definition msg_record_or_display :: string where
  "msg_record_or_display =
     CHR 0x0A # ''Please either record (-r) or display (-dis) results ! (or both) '' @ [CHR 0x0A]"

definition msg_record_folder :: string where
  "msg_record_folder =
     CHR 0x0A # ''Please give a record folder (-r) for saving results of qlearning '' @ [CHR 0x0A]"

definition msg_validation_ratio :: string where
  "msg_validation_ratio = ''Wrong validation_ratio parameter, must be in range ]0,1[ ''"

text \<open>Lines 66 to 73: the three checks, in the order of the script.\<close>

definition check_config :: "cli_args \<Rightarrow> error + unit" where
  "check_config a =
     (if \<not> (recordto a \<noteq> [] \<or> display a) then Inl (Exception msg_record_or_display)
      else if qlearning a \<and> \<not> recordto a \<noteq> [] then Inl (Exception msg_record_folder)
      else if fle (validation_ratio a) (Fin 0) \<or> fge (validation_ratio a) (Fin 1)
        then Inl (ValueError msg_validation_ratio)
      else Inr ())"

subsection \<open>Data handed over by the collaborators\<close>

text \<open>
  The training data (line 80), as far as the script reads it: the observations, the
  rewards, the episode starts, \<open>training_data['actions_int'].item(0)\<close>,
  \<open>training_data['num_actions']\<close> and \<open>training_data['args'].item(0)\<close>, the
  arguments of the environment the data was recorded in.
\<close>

record 'obj dataset =
  observations :: "'obj list"
  rewards :: "pyfloat list"
  episode_starts :: "bool list"
  actions_int :: 'obj
  num_actions :: int
  env_args :: 'obj

text \<open>\<open>history.history\<close>, the four validation losses per epoch trained.\<close>

record history =
  val_t_loss :: "pyfloat list"
  val_p_loss :: "pyfloat list"
  val_c_loss :: "pyfloat list"
  val_r_loss :: "pyfloat list"

text \<open>
  The statistics of a rollout: \<open>stats['rewards']\<close> (its entries in row-major order)
  and \<open>stats['reward_ep']\<close>.
\<close>

record stats =
  stats_rewards :: "pyfloat list"
  reward_ep :: "pyfloat list"

type_synonym tensor4 = "pyfloat list list list list"

subsection \<open>Collaborators and the trace of their calls\<close>

text \<open>
  One constructor per call the script makes, with the arguments that vary and the
  outcome. \<open>E_make_env\<close> stands for lines 150 to 187 (the controller, the global
  point of view and the environment, all built from \<open>env_args\<close>);
  \<open>E_plot_representation\<close> carries the states and the number \<open>learning_epoch+1\<close>
  printed in the plot's name; \<open>E_plot_losses\<close>, \<open>E_plot_pca\<close> and \<open>E_plot_rewards\<close>
  stand for the three figures of lines 263 to 322.
\<close>

datatype 'obj event =
    E_makedirs string "error + unit"
  | E_time "error + pyfloat"
  | E_seed int "error + unit"
  | E_load_data string "error + 'obj dataset"
  | E_Priors_model "int list" int pyfloat pyfloat weights pyfloat "int option" "error + 'obj"
  | E_learn_states 'obj int int string bool pyfloat "error + 'obj \<times> history"
  | E_compute_states string 'obj string bool "error + unit"
  | E_make_env 'obj bool int 'obj "error + 'obj"
  | E_plot_representation 'obj int string "error + unit"
  | E_Fitted_QIteration int int "error + 'obj"
  | E_fit_sk 'obj 'obj 'obj "pyfloat list" pyfloat int bool "error + 'obj"
  | E_Plug_policy 'obj 'obj "error + 'obj"
  | E_RoundBotAgent 'obj "error + 'obj"
  | E_run_in_env 'obj 'obj int "int option" "error + stats"
  | E_print int int "pyfloat list" "error + unit"
  | E_plot_losses int "pyfloat list" "pyfloat list" "pyfloat list" "pyfloat list"
      bool string bool "error + unit"
  | E_plot_pca 'obj bool string "error + unit"
  | E_plot_rewards int int tensor4 bool string "error + unit"
  | E_input "error + unit"

type_synonym ('w, 'a) ext = "'w \<Rightarrow> (error + 'a) \<times> 'w"

record ('w, 'obj) collaborators =
  fp_round :: "real \<Rightarrow> pyfloat"
  shape_of :: "'obj \<Rightarrow> int list"
  os_makedirs :: "string \<Rightarrow> ('w, unit) ext"
  time_time :: "('w, pyfloat) ext"
  np_random_seed :: "int \<Rightarrow> ('w, unit) ext"
  load_data :: "string \<Rightarrow> ('w, 'obj dataset) ext"
  Priors_model :: "int list \<Rightarrow> int \<Rightarrow> pyfloat \<Rightarrow> pyfloat \<Rightarrow> weights \<Rightarrow> pyfloat \<Rightarrow> int option
    \<Rightarrow> ('w, 'obj) ext"
  learn_states :: "'obj dataset \<Rightarrow> 'obj \<Rightarrow> int \<Rightarrow> int \<Rightarrow> string \<Rightarrow> bool \<Rightarrow> pyfloat
    \<Rightarrow> ('w, 'obj \<times> history) ext"
  compute_states :: "string \<Rightarrow> 'obj \<Rightarrow> string \<Rightarrow> bool \<Rightarrow> ('w, unit) ext"
  make_env :: "'obj \<Rightarrow> bool \<Rightarrow> int \<Rightarrow> 'obj \<Rightarrow> ('w, 'obj) ext"
  plot_representation :: "'obj dataset \<Rightarrow> 'obj \<Rightarrow> int \<Rightarrow> string \<Rightarrow> ('w, unit) ext"
  Fitted_QIteration :: "int \<Rightarrow> int \<Rightarrow> ('w, 'obj) ext"
  fit_sk :: "'obj \<Rightarrow> 'obj \<Rightarrow> 'obj \<Rightarrow> pyfloat list \<Rightarrow> pyfloat \<Rightarrow> int \<Rightarrow> bool \<Rightarrow> ('w, 'obj) ext"
  Plug_policy :: "'obj \<Rightarrow> 'obj \<Rightarrow> ('w, 'obj) ext"
  RoundBotAgent :: "'obj \<Rightarrow> ('w, 'obj) ext"
  run_in_env :: "'obj \<Rightarrow> 'obj \<Rightarrow> int \<Rightarrow> int option \<Rightarrow> ('w, stats) ext"
  print :: "int \<Rightarrow> int \<Rightarrow> pyfloat list \<Rightarrow> ('w, unit) ext"
  plot_losses :: "int \<Rightarrow> pyfloat list \<Rightarrow> pyfloat list \<Rightarrow> pyfloat list \<Rightarrow> pyfloat list
    \<Rightarrow> bool \<Rightarrow> string \<Rightarrow> bool \<Rightarrow> ('w, unit) ext"
  plot_pca :: "'obj \<Rightarrow> bool \<Rightarrow> string \<Rightarrow> ('w, unit) ext"
  plot_rewards :: "int \<Rightarrow> int \<Rightarrow> tensor4 \<Rightarrow> bool \<Rightarrow> string \<Rightarrow> ('w, unit) ext"
  input :: "('w, unit) ext"

subsection \<open>The state of the script\<close>

text \<open>
  The outside world, the trace, and the variables of the script that outlive a loop
  iteration: \<open>states\<close> (unbound until the first training call returns), the four
  loss records and the performance tensor.
\<close>

record ('w, 'obj) state =
  world :: 'w
  trace :: "'obj event list"
  states :: "'obj option"
  temporalcoherence_loss_record :: "pyfloat list"
  proportionality_loss_record :: "pyfloat list"
  causality_loss_record :: "pyfloat list"
  repeatability_loss_record :: "pyfloat list"
  test_performance :: tensor4

definition init_state :: "'w \<Rightarrow> ('w, 'obj) state" where
  "init_state w =
     \<lparr> world = w, trace = [], states = None,
       temporalcoherence_loss_record = [], proportionality_loss_record = [],
       causality_loss_record = [], repeatability_loss_record = [],
       test_performance = [] \<rparr>"

text \<open>
  A step of the script returns a value and the new state, or raises: the error comes
  with the state at the raise.
\<close>

type_synonym ('w, 'obj, 'a) step = "(error \<times> ('w, 'obj) state) + ('a \<times> ('w, 'obj) state)"

definition thenE ::
  "('w, 'obj, 'a) step \<Rightarrow> ('a \<Rightarrow> ('w, 'obj) state \<Rightarrow> ('w, 'obj, 'b) step) \<Rightarrow> ('w, 'obj, 'b) step"
where
  "thenE m f = (case m of Inl e \<Rightarrow> Inl e | Inr (x, st) \<Rightarrow> f x st)"

definition lift :: "error + 'a \<Rightarrow> ('w, 'obj) state \<Rightarrow> ('w, 'obj, 'a) step" where
  "lift r st = (case r of Inl e \<Rightarrow> Inl (e, st) | Inr x \<Rightarrow> Inr (x, st))"

definition skip :: "('w, 'obj) state \<Rightarrow> ('w, 'obj, unit) step" where
  "skip st = Inr ((), st)"

text \<open>A call of a collaborator: the world moves on and the call is traced.\<close>

definition call ::
  "(error + 'a \<Rightarrow> 'obj event) \<Rightarrow> ('w, 'a) ext \<Rightarrow> ('w, 'obj) state \<Rightarrow> ('w, 'obj, 'a) step"
where
  "call ev f st =
     (case f (world st) of
        (Inl e, w') \<Rightarrow> Inl (e, st\<lparr>world := w', trace := trace st @ [ev (Inl e)]\<rparr>)
      | (Inr x, w') \<Rightarrow> Inr (x, st\<lparr>world := w', trace := trace st @ [ev (Inr x)]\<rparr>))"

text \<open>\<open>for x in xs: body\<close>, stopped by the first raise.\<close>

fun forE ::
  "'a list \<Rightarrow> ('a \<Rightarrow> ('w, 'obj) state \<Rightarrow> ('w, 'obj, unit) step) \<Rightarrow> ('w, 'obj) state
    \<Rightarrow> ('w, 'obj, unit) step"
where
  "forE [] body st = Inr ((), st)"
| "forE (x # xs) body st =
     (case body x st of Inl e \<Rightarrow> Inl e | Inr (u, st') \<Rightarrow> forE xs body st')"

text \<open>\<open>range(n)\<close>: empty for \<open>n <= 0\<close>.\<close>

definition py_range :: "int \<Rightarrow> int list" where
  "py_range n = map int [0..<nat n]"

subsection \<open>Arrays\<close>

text \<open>\<open>np.zeros(n)\<close> and \<open>np.zeros([d0, d1, d2, d3])\<close>: a negative dimension raises.\<close>

definition msg_negative_dimensions :: string where
  "msg_negative_dimensions = ''negative dimensions are not allowed''"

definition np_zeros :: "int \<Rightarrow> error + pyfloat list" where
  "np_zeros n =
     (if n < 0 then Inl (ValueError msg_negative_dimensions)
      else Inr (replicate (nat n) (Fin 0)))"

definition np_zeros4 :: "int \<Rightarrow> int \<Rightarrow> int \<Rightarrow> int \<Rightarrow> error + tensor4" where
  "np_zeros4 d0 d1 d2 d3 =
     (if d0 < 0 \<or> d1 < 0 \<or> d2 < 0 \<or> d3 < 0 then Inl (ValueError msg_negative_dimensions)
      else Inr (replicate (nat d0) (replicate (nat d1) (replicate (nat d2)
             (replicate (nat d3) (Fin 0))))))"

text \<open>An index into a sequence of length \<open>n\<close>: negative indices count from the end.\<close>

definition py_index :: "int \<Rightarrow> nat \<Rightarrow> error + nat" where
  "py_index i n =
     (if 0 \<le> i \<and> i < int n then Inr (nat i)
      else if - int n \<le> i \<and> i < 0 then Inr (nat (i + int n))
      else Inl IndexError)"

text \<open>\<open>xs[0]\<close> on a list.\<close>

definition item0 :: "'a list \<Rightarrow> error + 'a" where
  "item0 xs = (case xs of [] \<Rightarrow> Inl IndexError | x # _ \<Rightarrow> Inr x)"

text \<open>\<open>record[i] = hist[0]\<close>: the right-hand side is read first.\<close>

definition record_loss :: "pyfloat list \<Rightarrow> int \<Rightarrow> pyfloat list \<Rightarrow> error + pyfloat list" where
  "record_loss rec i hist =
     (case item0 hist of
        Inl e \<Rightarrow> Inl e
      | Inr v \<Rightarrow>
          (case py_index i (length rec) of
             Inl e \<Rightarrow> Inl e
           | Inr k \<Rightarrow> Inr (rec[k := v])))"

text \<open>
  \<open>np.reshape(np.array(xs), [rows, cols])\<close> on the entries in row-major order: raises
  unless there are \<open>rows * cols\<close> of them.
\<close>

definition msg_reshape :: string where
  "msg_reshape = ''cannot reshape array''"

definition np_reshape :: "pyfloat list \<Rightarrow> int \<Rightarrow> int \<Rightarrow> error + pyfloat list list" where
  "np_reshape xs rows cols =
     (if int (length xs) = rows * cols \<and> 0 \<le> rows \<and> 0 \<le> cols
      then Inr (map (\<lambda>r. take (nat cols) (drop (r * nat cols) xs)) [0..<nat rows])
      else Inl (ValueError msg_reshape))"

text \<open>\<open>t[i, j, :, :] = m\<close>.\<close>

definition assign_slice :: "tensor4 \<Rightarrow> int \<Rightarrow> int \<Rightarrow> pyfloat list list \<Rightarrow> error + tensor4" where
  "assign_slice t i j m =
     (case py_index i (length t) of
        Inl e \<Rightarrow> Inl e
      | Inr k \<Rightarrow>
          (case py_index j (length (t ! k)) of
             Inl e \<Rightarrow> Inl e
           | Inr l \<Rightarrow> Inr (t[k := (t ! k)[l := m]])))"

subsection \<open>Start of the script (lines 60 to 90)\<close>

text \<open>Lines 63 and 64.\<close>

definition make_record_dir ::
  "('w, 'obj) collaborators \<Rightarrow> cli_args \<Rightarrow> ('w, 'obj) state \<Rightarrow> ('w, 'obj, unit) step"
where
  "make_record_dir c a st =
     (if recordto a \<noteq> [] then call (E_makedirs (recordto a)) (os_makedirs c (recordto a)) st
      else skip st)"

text \<open>
  Line 76: \<open>np.random.seed(args.seed if args.seed else int(time.time()))\<close>. The seed
  is used when it is truthy: given and not 0. The clock is read only otherwise.
\<close>

definition seed_truthy :: "int option \<Rightarrow> bool" where
  "seed_truthy s = (case s of None \<Rightarrow> False | Some n \<Rightarrow> n \<noteq> 0)"

definition init_seed ::
  "('w, 'obj) collaborators \<Rightarrow> cli_args \<Rightarrow> ('w, 'obj) state \<Rightarrow> ('w, 'obj, unit) step"
where
  "init_seed c a st =
     (if seed_truthy (seed a)
      then call (E_seed (the (seed a))) (np_random_seed c (the (seed a))) st
      else thenE (call E_time (time_time c) st) (\<lambda>t st.
           thenE (lift (py_int t) st) (\<lambda>n st.
           call (E_seed n) (np_random_seed c n) st)))"

text \<open>
  Lines 80 to 90: the training data and the model; \<open>noise_stddev\<close> is the literal
  \<open>1e-6\<close>.
\<close>

definition build_model ::
  "('w, 'obj) collaborators \<Rightarrow> cli_args \<Rightarrow> ('w, 'obj) state
    \<Rightarrow> ('w, 'obj, 'obj dataset \<times> 'obj) step"
where
  "build_model c a st =
     thenE (call (E_load_data (training_data a)) (load_data c (training_data a)) st) (\<lambda>ds st.
     thenE (lift (item0 (observations ds)) st) (\<lambda>ob st.
     thenE (call
        (E_Priors_model (shape_of c ob) (state_dim a) (learning_rate a) (l1_reg a)
           (weights a) (Fin (1 / 1000000)) (tanh_units a))
        (Priors_model c (shape_of c ob) (state_dim a) (learning_rate a) (l1_reg a)
           (weights a) (Fin (1 / 1000000)) (tanh_units a)) st) (\<lambda>jp_model st.
     Inr ((ds, jp_model), st))))"

subsection \<open>Learning without Q-learning (lines 94 to 116)\<close>

definition simple_learning ::
  "('w, 'obj) collaborators \<Rightarrow> cli_args \<Rightarrow> 'obj dataset \<Rightarrow> 'obj \<Rightarrow> ('w, 'obj) state
    \<Rightarrow> ('w, 'obj, unit) step"
where
  "simple_learning c a ds jp_model st =
     thenE (call
        (E_learn_states jp_model (num_epochs a) (batch_size a) (recordto a) (display a)
           (validation_ratio a))
        (learn_states c ds jp_model (num_epochs a) (batch_size a) (recordto a) (display a)
           (validation_ratio a)) st) (\<lambda>(s, h) st.
     thenE (skip (st\<lparr>states := Some s,
                     temporalcoherence_loss_record := val_t_loss h,
                     proportionality_loss_record := val_p_loss h,
                     causality_loss_record := val_c_loss h,
                     repeatability_loss_record := val_r_loss h\<rparr>)) (\<lambda>u st.
     if test_data a \<noteq> []
     then call (E_compute_states (test_data a) jp_model (recordto a) (display a))
            (compute_states c (test_data a) jp_model (recordto a) (display a)) st
     else skip st))"

subsection \<open>The Q-learning experiment (lines 122 to 249)\<close>

definition n_qlearnings :: int where "n_qlearnings = 10"
definition n_test_episodes :: int where "n_test_episodes = 20"
definition n_test_steps :: int where "n_test_steps = 25"
definition n_rbf :: int where "n_rbf = 100"

text \<open>
  Lines 235 to 249, one trial \<open>q_learning\<close> of epoch \<open>learning_epoch\<close>: a learner, a
  policy fitted on \<open>s\<close> (the states of this epoch), the policy plugged on the action
  space of the environment, an agent, its rollout, and the rewards written to the
  tensor. The discount factor is the literal \<open>0.9\<close>.
\<close>

definition qlearning_trial ::
  "('w, 'obj) collaborators \<Rightarrow> cli_args \<Rightarrow> 'obj dataset \<Rightarrow> 'obj \<Rightarrow> 'obj \<Rightarrow> int \<Rightarrow> int
    \<Rightarrow> ('w, 'obj) state \<Rightarrow> ('w, 'obj, unit) step"
where
  "qlearning_trial c a ds s env learning_epoch q_learning st =
     thenE (call (E_Fitted_QIteration n_rbf (num_actions ds))
              (Fitted_QIteration c n_rbf (num_actions ds)) st) (\<lambda>qit st.
     thenE (call (E_fit_sk qit s (actions_int ds) (rewards ds) (Fin (9 / 10)) 10 True)
              (fit_sk c qit s (actions_int ds) (rewards ds) (Fin (9 / 10)) 10 True) st)
       (\<lambda>state_policy st.
     thenE (call (E_Plug_policy state_policy env) (Plug_policy c state_policy env) st)
       (\<lambda>plugged st.
     thenE (call (E_RoundBotAgent plugged) (RoundBotAgent c plugged) st) (\<lambda>rb_agent st.
     thenE (call (E_run_in_env rb_agent env n_test_episodes None)
              (run_in_env c rb_agent env n_test_episodes None) st) (\<lambda>sts st.
     thenE (lift (np_reshape (stats_rewards sts) n_test_episodes n_test_steps) st) (\<lambda>m st.
     thenE (lift (assign_slice (test_performance st) learning_epoch q_learning m) st)
       (\<lambda>t st.
     thenE (skip (st\<lparr>test_performance := t\<rparr>)) (\<lambda>u st.
     if verbose a
     then call (E_print q_learning n_test_episodes (reward_ep sts))
            (print c q_learning n_test_episodes (reward_ep sts)) st
     else skip st))))))))"

text \<open>Lines 211 to 214.\<close>

definition record_losses ::
  "history \<Rightarrow> int \<Rightarrow> ('w, 'obj) state \<Rightarrow> ('w, 'obj, unit) step"
where
  "record_losses h learning_epoch st =
     thenE (lift (record_loss (temporalcoherence_loss_record st) learning_epoch
                    (val_t_loss h)) st) (\<lambda>r st.
     thenE (lift (record_loss (proportionality_loss_record st) learning_epoch
                    (val_p_loss h)) (st\<lparr>temporalcoherence_loss_record := r\<rparr>)) (\<lambda>r st.
     thenE (lift (record_loss (causality_loss_record st) learning_epoch
                    (val_c_loss h)) (st\<lparr>proportionality_loss_record := r\<rparr>)) (\<lambda>r st.
     thenE (lift (record_loss (repeatability_loss_record st) learning_epoch
                    (val_r_loss h)) (st\<lparr>causality_loss_record := r\<rparr>)) (\<lambda>r st.
     skip (st\<lparr>repeatability_loss_record := r\<rparr>)))))"

text \<open>Lines 200 to 249, the body of the loop over \<open>learning_epoch\<close>.\<close>

definition learning_epoch_body ::
  "('w, 'obj) collaborators \<Rightarrow> cli_args \<Rightarrow> 'obj dataset \<Rightarrow> 'obj \<Rightarrow> 'obj \<Rightarrow> int
    \<Rightarrow> ('w, 'obj) state \<Rightarrow> ('w, 'obj, unit) step"
where
  "learning_epoch_body c a ds jp_model env learning_epoch st =
     thenE (call
        (E_learn_states jp_model 1 (batch_size a) [] (display a) (validation_ratio a))
        (learn_states c ds jp_model 1 (batch_size a) [] (display a) (validation_ratio a))
        st) (\<lambda>(s, h) st.
     thenE (record_losses h learning_epoch (st\<lparr>states := Some s\<rparr>)) (\<lambda>u st.
     thenE (if learning_epoch = 0 \<or> (learning_epoch + 1) mod 5 = 0
            then call (E_plot_representation s (learning_epoch + 1) (recordto a))
                   (plot_representation c ds s (learning_epoch + 1) (recordto a)) st
            else skip st) (\<lambda>u st.
     forE (py_range n_qlearnings) (qlearning_trial c a ds s env learning_epoch) st)))"

text \<open>
  Lines 134 to 249: the tensor is allocated before the environment is built, the
  four loss records after it (four calls of \<open>np.zeros\<close> with the same argument).
\<close>

definition qlearning_experiment ::
  "('w, 'obj) collaborators \<Rightarrow> cli_args \<Rightarrow> 'obj dataset \<Rightarrow> 'obj \<Rightarrow> ('w, 'obj) state
    \<Rightarrow> ('w, 'obj, unit) step"
where
  "qlearning_experiment c a ds jp_model st =
     thenE (lift (np_zeros4 (num_epochs a) n_qlearnings n_test_episodes n_test_steps) st)
       (\<lambda>t st.
     thenE (call (E_make_env (env_args ds) (visible_train a) n_test_steps jp_model)
              (make_env c (env_args ds) (visible_train a) n_test_steps jp_model)
              (st\<lparr>test_performance := t\<rparr>)) (\<lambda>env st.
     thenE (lift (np_zeros (num_epochs a)) st) (\<lambda>z st.
     forE (py_range (num_epochs a)) (learning_epoch_body c a ds jp_model env)
       (st\<lparr>temporalcoherence_loss_record := z, proportionality_loss_record := z,
           causality_loss_record := z, repeatability_loss_record := z\<rparr>))))"

subsection \<open>The plots (lines 252 to 326)\<close>

text \<open>Lines 257 to 260: each record divided by its weight, entry by entry.\<close>

definition unweight ::
  "('w, 'obj) collaborators \<Rightarrow> cli_args \<Rightarrow> ('w, 'obj) state \<Rightarrow> ('w, 'obj) state"
where
  "unweight c a st =
     st\<lparr>causality_loss_record :=
          map (\<lambda>x. fdiv (fp_round c) x (weight_at (weights a) 2)) (causality_loss_record st),
        repeatability_loss_record :=
          map (\<lambda>x. fdiv (fp_round c) x (weight_at (weights a) 3)) (repeatability_loss_record st),
        proportionality_loss_record :=
          map (\<lambda>x. fdiv (fp_round c) x (weight_at (weights a) 1)) (proportionality_loss_record st),
        temporalcoherence_loss_record :=
          map (\<lambda>x. fdiv (fp_round c) x (weight_at (weights a) 0)) (temporalcoherence_loss_record st)\<rparr>"

text \<open>
  Lines 287 to 326: the figure of the PCA of \<open>states\<close> (a name that is unbound when
  no training call has returned), the figure of the rewards in Q-learning mode, and
  the final prompt when plots are displayed.
\<close>

definition later_figures ::
  "('w, 'obj) collaborators \<Rightarrow> cli_args \<Rightarrow> ('w, 'obj) state \<Rightarrow> ('w, 'obj, unit) step"
where
  "later_figures c a st =
     thenE (case states st of
              None \<Rightarrow> Inl (NameError ''states'', st)
            | Some s \<Rightarrow> call (E_plot_pca s (display a) (recordto a))
                         (plot_pca c s (display a) (recordto a)) st) (\<lambda>u st.
     thenE (if qlearning a
            then call (E_plot_rewards (num_epochs a) n_qlearnings (test_performance st)
                         (display a) (recordto a))
                   (plot_rewards c (num_epochs a) n_qlearnings (test_performance st)
                         (display a) (recordto a)) st
            else skip st) (\<lambda>u st.
     if display a then call E_input (input c) st else skip st))"

text \<open>Lines 252 to 326: the unweighted losses, their figure, and the later figures.\<close>

definition plotting ::
  "('w, 'obj) collaborators \<Rightarrow> cli_args \<Rightarrow> ('w, 'obj) state \<Rightarrow> ('w, 'obj, unit) step"
where
  "plotting c a st0 =
     thenE (skip (unweight c a st0)) (\<lambda>u st.
     thenE (call
        (E_plot_losses (num_epochs a) (temporalcoherence_loss_record st)
           (proportionality_loss_record st) (repeatability_loss_record st)
           (causality_loss_record st) (display a) (recordto a) (qlearning a))
        (plot_losses c (num_epochs a) (temporalcoherence_loss_record st)
           (proportionality_loss_record st) (repeatability_loss_record st)
           (causality_loss_record st) (display a) (recordto a) (qlearning a)) st) (\<lambda>u st.
     later_figures c a st))"

subsection \<open>The whole script\<close>

text \<open>Lines 92 to 249: one of the two modes.\<close>

definition run_mode ::
  "('w, 'obj) collaborators \<Rightarrow> cli_args \<Rightarrow> 'obj dataset \<Rightarrow> 'obj \<Rightarrow> ('w, 'obj) state
    \<Rightarrow> ('w, 'obj, unit) step"
where
  "run_mode c a ds jp_model st =
     (if \<not> qlearning a then simple_learning c a ds jp_model st
      else qlearning_experiment c a ds jp_model st)"

text \<open>Lines 60 to 76: the record folder, the checks and the seed.\<close>

definition startup ::
  "('w, 'obj) collaborators \<Rightarrow> cli_args \<Rightarrow> 'w \<Rightarrow> ('w, 'obj, unit) step"
where
  "startup c a0 w =
     thenE (skip (init_state w)) (\<lambda>u st.
     thenE (make_record_dir c (normalize_recordto a0) st) (\<lambda>u st.
     thenE (lift (check_config (normalize_recordto a0)) st) (\<lambda>u st.
     init_seed c (normalize_recordto a0) st)))"

text \<open>Lines 60 to 249: everything before the plots, from the parsed arguments.\<close>

definition before_plots ::
  "('w, 'obj) collaborators \<Rightarrow> cli_args \<Rightarrow> 'w \<Rightarrow> ('w, 'obj, unit) step"
where
  "before_plots c a0 w =
     thenE (startup c a0 w) (\<lambda>u st.
     thenE (build_model c (normalize_recordto a0) st) (\<lambda>(ds, jp_model) st.
     run_mode c (normalize_recordto a0) ds jp_model st))"

definition main :: "('w, 'obj) collaborators \<Rightarrow> cli_args \<Rightarrow> 'w \<Rightarrow> ('w, 'obj, unit) step" where
  "main c a0 w =
     thenE (before_plots c a0 w) (\<lambda>u st. plotting c (normalize_recordto a0) st)"

subsection \<open>Reading a run\<close>

text \<open>The state a run ends in, whether it returned or raised.\<close>

definition final_state :: "('w, 'obj, 'a) step \<Rightarrow> ('w, 'obj) state" where
  "final_state r = (case r of Inl (e, st) \<Rightarrow> st | Inr (x, st) \<Rightarrow> st)"

text \<open>The seeds given to \<open>np.random.seed\<close>, and what the clock answered, in order.\<close>

fun seed_of :: "'obj event \<Rightarrow> int list" where
  "seed_of (E_seed n r) = [n]"
| "seed_of _ = []"

definition seeds :: "'obj event list \<Rightarrow> int list" where
  "seeds tr = concat (map seed_of tr)"

fun clock_of :: "'obj event \<Rightarrow> (error + pyfloat) list" where
  "clock_of (E_time r) = [r]"
| "clock_of _ = []"

definition clock_reads :: "'obj event list \<Rightarrow> (error + pyfloat) list" where
  "clock_reads tr = concat (map clock_of tr)"

text \<open>Is the call one to \<open>os.makedirs\<close>?\<close>

fun is_makedirs :: "'obj event \<Rightarrow> bool" where
  "is_makedirs (E_makedirs p r) = True"
| "is_makedirs _ = False"

text \<open>
  The training calls that returned: the \<open>num_epochs\<close> and \<open>recordto\<close> they were
  given, the states and the history they returned.
\<close>

fun trained_of :: "'obj event \<Rightarrow> (int \<times> string \<times> 'obj \<times> history) list" where
  "trained_of (E_learn_states m n b r d v (Inr (s, h))) = [(n, r, s, h)]"
| "trained_of _ = []"

definition trained :: "'obj event list \<Rightarrow> (int \<times> string \<times> 'obj \<times> history) list" where
  "trained tr = concat (map trained_of tr)"

text \<open>The numbers \<open>learning_epoch+1\<close> of the representation plots, in order.\<close>

fun plotted_of :: "'obj event \<Rightarrow> int list" where
  "plotted_of (E_plot_representation s n r x) = [n]"
| "plotted_of _ = []"

definition plotted :: "'obj event list \<Rightarrow> int list" where
  "plotted tr = concat (map plotted_of tr)"

text \<open>The statistics of the rollouts that returned, in order.\<close>

fun rollout_of :: "'obj event \<Rightarrow> stats list" where
  "rollout_of (E_run_in_env ag env n sd (Inr sts)) = [sts]"
| "rollout_of _ = []"

definition rollouts :: "'obj event list \<Rightarrow> stats list" where
  "rollouts tr = concat (map rollout_of tr)"

text \<open>
  The calls of a trial: the learner, the fit, the plugged policy, the agent and the
  rollout.
\<close>

fun is_trial_call :: "'obj event \<Rightarrow> bool" where
  "is_trial_call (E_Fitted_QIteration n k r) = True"
| "is_trial_call (E_fit_sk qit s ai rw g n b r) = True"
| "is_trial_call (E_Plug_policy p env r) = True"
| "is_trial_call (E_RoundBotAgent p r) = True"
| "is_trial_call (E_run_in_env ag env n sd r) = True"
| "is_trial_call _ = False"

text \<open>The objects a trial that returned went through.\<close>

record 'obj trial =
  t_qit :: 'obj
  t_policy :: 'obj
  t_plugged :: 'obj
  t_agent :: 'obj
  t_stats :: stats

text \<open>
  The five calls of a trial on the states \<open>s\<close>, each taking what the one before
  returned.
\<close>

definition trial_calls :: "'obj dataset \<Rightarrow> 'obj \<Rightarrow> 'obj \<Rightarrow> 'obj trial \<Rightarrow> 'obj event list" where
  "trial_calls ds env s t =
     [E_Fitted_QIteration 100 (num_actions ds) (Inr (t_qit t)),
      E_fit_sk (t_qit t) s (actions_int ds) (rewards ds) (Fin (9 / 10)) 10 True
        (Inr (t_policy t)),
      E_Plug_policy (t_policy t) env (Inr (t_plugged t)),
      E_RoundBotAgent (t_plugged t) (Inr (t_agent t)),
      E_run_in_env (t_agent t) env 20 None (Inr (t_stats t))]"

definition trial_events ::
  "cli_args \<Rightarrow> 'obj dataset \<Rightarrow> 'obj \<Rightarrow> 'obj \<Rightarrow> int \<Rightarrow> 'obj trial \<Rightarrow> 'obj event list"
where
  "trial_events a ds env s q t =
     trial_calls ds env s t @
     (if verbose a then [E_print q 20 (reward_ep (t_stats t)) (Inr ())] else [])"

text \<open>The 20 rows of 25 rewards of a rollout.\<close>

definition reward_rows :: "stats \<Rightarrow> pyfloat list list" where
  "reward_rows sts = map (\<lambda>r. take 25 (drop (r * 25) (stats_rewards sts))) [0..<20]"

text \<open>
  The events of an epoch that returned: the training call, the plot on the epochs
  that have one, and the trials.
\<close>

definition epoch_events ::
  "cli_args \<Rightarrow> 'obj dataset \<Rightarrow> 'obj \<Rightarrow> 'obj \<Rightarrow> int \<Rightarrow> ('obj \<times> history) \<times> 'obj trial list
    \<Rightarrow> 'obj event list"
where
  "epoch_events a ds jp_model env e ep =
     [E_learn_states jp_model 1 (batch_size a) [] (display a) (validation_ratio a)
        (Inr (fst ep))] @
     (if e = 0 \<or> (e + 1) mod 5 = 0
      then [E_plot_representation (fst (fst ep)) (e + 1) (recordto a) (Inr ())] else []) @
     concat (map (\<lambda>(q, t). trial_events a ds env (fst (fst ep)) q t)
               (zip (py_range 10) (snd ep)))"

text \<open>The calls made before either mode starts: lines 60 to 90.\<close>

fun is_setup :: "'obj event \<Rightarrow> bool" where
  "is_setup (E_makedirs p r) = True"
| "is_setup (E_time r) = True"
| "is_setup (E_seed n r) = True"
| "is_setup (E_load_data p r) = True"
| "is_setup (E_Priors_model sh sd lr l1 ws ns tu r) = True"
| "is_setup _ = False"

text \<open>
  What an epoch that returned has produced: ten trials, 500 rewards from each
  rollout, and at least one value for each validation loss.
\<close>

definition epoch_ok :: "('obj \<times> history) \<times> 'obj trial list \<Rightarrow> bool" where
  "epoch_ok ep =
     (length (snd ep) = 10 \<and>
      list_all (\<lambda>t. length (stats_rewards (t_stats t)) = 500) (snd ep) \<and>
      val_t_loss (snd (fst ep)) \<noteq> [] \<and> val_p_loss (snd (fst ep)) \<noteq> [] \<and>
      val_c_loss (snd (fst ep)) \<noteq> [] \<and> val_r_loss (snd (fst ep)) \<noteq> [])"

text \<open>The slices of the performance tensor an epoch writes.\<close>

definition epoch_rows :: "('obj \<times> history) \<times> 'obj trial list \<Rightarrow> pyfloat list list list" where
  "epoch_rows ep = map (\<lambda>t. reward_rows (t_stats t)) (snd ep)"

text \<open>
  Collaborators that return whenever the script calls them, whatever they return:
  the clock answers a finite time, the data has an observation, a training call
  gives at least one value per validation loss, and a rollout of 20 episodes gives
  500 rewards.
\<close>

definition cooperative :: "('w, 'obj) collaborators \<Rightarrow> bool" where
  "cooperative c =
     ((\<forall>p w. \<exists>w'. os_makedirs c p w = (Inr (), w')) \<and>
      (\<forall>w. \<exists>t w'. time_time c w = (Inr (Fin t), w')) \<and>
      (\<forall>n w. \<exists>w'. np_random_seed c n w = (Inr (), w')) \<and>
      (\<forall>p w. \<exists>ds w'. load_data c p w = (Inr ds, w') \<and> observations ds \<noteq> []) \<and>
      (\<forall>sh sd lr l1 ws ns tu w. \<exists>m w'. Priors_model c sh sd lr l1 ws ns tu w = (Inr m, w')) \<and>
      (\<forall>ds m n b r d v w. \<exists>s h w'. learn_states c ds m n b r d v w = (Inr (s, h), w') \<and>
          val_t_loss h \<noteq> [] \<and> val_p_loss h \<noteq> [] \<and> val_c_loss h \<noteq> [] \<and> val_r_loss h \<noteq> []) \<and>
      (\<forall>ea v n m w. \<exists>env w'. make_env c ea v n m w = (Inr env, w')) \<and>
      (\<forall>ds s n r w. \<exists>w'. plot_representation c ds s n r w = (Inr (), w')) \<and>
      (\<forall>n k w. \<exists>qit w'. Fitted_QIteration c n k w = (Inr qit, w')) \<and>
      (\<forall>qit s ai rw g n b w. \<exists>pol w'. fit_sk c qit s ai rw g n b w = (Inr pol, w')) \<and>
      (\<forall>pol env w. \<exists>pl w'. Plug_policy c pol env w = (Inr pl, w')) \<and>
      (\<forall>pl w. \<exists>ag w'. RoundBotAgent c pl w = (Inr ag, w')) \<and>
      (\<forall>ag env sd w. \<exists>sts w'. run_in_env c ag env 20 sd w = (Inr sts, w') \<and>
          length (stats_rewards sts) = 500) \<and>
      (\<forall>q n rs w. \<exists>w'. print c q n rs w = (Inr (), w')))"

text \<open>
  The shape of the arrays during the loop over \<open>n\<close> epochs: \<open>n\<close> rows of ten slices
  in the tensor, \<open>n\<close> entries in each loss record.
\<close>

definition shaped :: "nat \<Rightarrow> ('w, 'obj) state \<Rightarrow> bool" where
  "shaped n st =
     (length (test_performance st) = n \<and>
      list_all (\<lambda>row. length row = 10) (test_performance st) \<and>
      length (temporalcoherence_loss_record st) = n \<and>
      length (proportionality_loss_record st) = n \<and>
      length (causality_loss_record st) = n \<and>
      length (repeatability_loss_record st) = n)"

subsection \<open>Collaborators to run the script on\<close>

text \<open>
  Collaborators that always return, on a world that is a clock: the clock ticks at
  each reading, every training call returns one value per loss, every rollout
  returns 500 rewards.
\<close>

definition stub_dataset :: "nat dataset" where
  "stub_dataset =
     \<lparr> observations = [0], rewards = [Fin 1, Fin 0], episode_starts = [True, False],
       actions_int = 1, num_actions = 4, env_args = 2 \<rparr>"

definition stub_history :: history where
  "stub_history =
     \<lparr> val_t_loss = [Fin 1], val_p_loss = [Fin 2], val_c_loss = [Fin 3],
       val_r_loss = [Fin 4] \<rparr>"

definition stub_stats :: stats where
  "stub_stats = \<lparr> stats_rewards = replicate 500 (Fin 1), reward_ep = replicate 20 (Fin 25) \<rparr>"

text \<open>A Q-learning run of two epochs, recorded to the folder \<open>out\<close>.\<close>

definition stub_args :: cli_args where
  "stub_args =
     (default_args ''data.npz'')\<lparr>qlearning := True, recordto := ''out'', num_epochs := 2\<rparr>"

definition stub :: "(nat, nat) collaborators" where
  "stub =
     \<lparr> fp_round = Fin,
       shape_of = (\<lambda>ob. [16, 16, 3]),
       os_makedirs = (\<lambda>p w. (Inr (), w)),
       time_time = (\<lambda>w. (Inr (Fin (real w)), Suc w)),
       np_random_seed = (\<lambda>n w. (Inr (), w)),
       load_data = (\<lambda>p w. (Inr stub_dataset, w)),
       Priors_model = (\<lambda>sh sd lr l1 ws ns tu w. (Inr 3, w)),
       learn_states = (\<lambda>ds m n b r d v w. (Inr (4, stub_history), w)),
       compute_states = (\<lambda>p m r d w. (Inr (), w)),
       make_env = (\<lambda>ea v n m w. (Inr 5, w)),
       plot_representation = (\<lambda>ds s n r w. (Inr (), w)),
       Fitted_QIteration = (\<lambda>n k w. (Inr 6, w)),
       fit_sk = (\<lambda>q s ai rw g n b w. (Inr 7, w)),
       Plug_policy = (\<lambda>p env w. (Inr 8, w)),
       RoundBotAgent = (\<lambda>p w. (Inr 9, w)),
       run_in_env = (\<lambda>ag env n sd w. (Inr stub_stats, w)),
       print = (\<lambda>q n rs w. (Inr (), w)),
       plot_losses = (\<lambda>n t p r c d rt ql w. (Inr (), w)),
       plot_pca = (\<lambda>s d r w. (Inr (), w)),
       plot_rewards = (\<lambda>n k t d r w. (Inr (), w)),
       input = (\<lambda>w. (Inr (), w)) \<rparr>"

section \<open>Properties\<close>

subsection \<open>Steps that return\<close>

lemma thenE_Inr:
  "thenE m f = Inr r \<longleftrightarrow> (\<exists>x st. m = Inr (x, st) \<and> f x st = Inr r)"
  by (auto simp: thenE_def split: sum.splits)

lemma thenE_simps:
  "thenE (Inl e) f = Inl e"
  "thenE (Inr (x, st)) f = f x st"
  by (simp_all add: thenE_def)

lemma call_Inr:
  "call ev f st = Inr (x, st') \<longleftrightarrow>
     (\<exists>w'. f (world st) = (Inr x, w') \<and>
        st' = st\<lparr>world := w', trace := trace st @ [ev (Inr x)]\<rparr>)"
  by (auto simp: call_def split: sum.splits prod.splits)

lemma lift_Inr: "lift r st = Inr (x, st') \<longleftrightarrow> r = Inr x \<and> st' = st"
  by (auto simp: lift_def split: sum.splits)

lemma skip_Inr: "skip st = Inr (x, st') \<longleftrightarrow> st' = st"
  by (auto simp: skip_def)

subsection \<open>The configuration checks\<close>

lemma recordto_normalize: "recordto (normalize_recordto a) = [] \<longleftrightarrow> recordto a = []"
  by (simp add: normalize_recordto_def)

lemma normalize_fields:
  "display (normalize_recordto a) = display a"
  "qlearning (normalize_recordto a) = qlearning a"
  "validation_ratio (normalize_recordto a) = validation_ratio a"
  "seed (normalize_recordto a) = seed a"
  "num_epochs (normalize_recordto a) = num_epochs a"
  "weights (normalize_recordto a) = weights a"
  by (simp_all add: normalize_recordto_def)

lemma msgs_distinct: "msg_record_or_display \<noteq> msg_record_folder"
  by (simp add: msg_record_or_display_def msg_record_folder_def)

lemma startup_no_dest:
  "recordto a = [] \<Longrightarrow> check_config (normalize_recordto a) = Inl e \<Longrightarrow>
   startup c a w = Inl (e, init_state w)"
  by (simp add: startup_def make_record_dir_def recordto_normalize thenE_def skip_def lift_def)

lemma startup_dest:
  "recordto a \<noteq> [] \<Longrightarrow> check_config (normalize_recordto a) = Inl e \<Longrightarrow>
   \<exists>st r. startup c a w = Inl (case r of Inl e' \<Rightarrow> e' | Inr u \<Rightarrow> e, st) \<and>
     trace st = [E_makedirs (recordto (normalize_recordto a)) r]"
  by (auto simp: startup_def make_record_dir_def recordto_normalize thenE_def skip_def
      lift_def call_def init_state_def split: prod.splits sum.splits)

lemma main_startup_Inl: "startup c a w = Inl x \<Longrightarrow> main c a w = Inl x"
  by (simp add: main_def before_plots_def thenE_def)

lemma check_config_range:
  "fle (validation_ratio a) (Fin 0) \<or> fge (validation_ratio a) (Fin 1) \<Longrightarrow>
   \<exists>e. check_config a = Inl e \<and>
     e \<in> {Exception msg_record_or_display, Exception msg_record_folder,
           ValueError msg_validation_ratio}"
  by (auto simp: check_config_def)

text \<open>
  C8. With neither a record folder nor the display option, the script raises the
  exception of line 67 before any collaborator is called: the trace is empty and the
  world untouched. With at least one of the two, the checks do not raise it.
\<close>

theorem record_or_display_required:
  "(recordto a = [] \<and> \<not> display a \<longrightarrow>
      main c a w = Inl (Exception msg_record_or_display, init_state w)) \<and>
   (recordto a \<noteq> [] \<or> display a \<longrightarrow>
      check_config (normalize_recordto a) \<noteq> Inl (Exception msg_record_or_display))"
proof (intro conjI impI)
  assume h: "recordto a = [] \<and> \<not> display a"
  then have "check_config (normalize_recordto a) = Inl (Exception msg_record_or_display)"
    by (simp add: check_config_def recordto_normalize normalize_fields)
  with h show "main c a w = Inl (Exception msg_record_or_display, init_state w)"
    by (simp add: main_startup_Inl startup_no_dest)
next
  assume "recordto a \<noteq> [] \<or> display a"
  then show "check_config (normalize_recordto a) \<noteq> Inl (Exception msg_record_or_display)"
    by (auto simp: check_config_def recordto_normalize normalize_fields msgs_distinct
        msgs_distinct [symmetric])
qed

theorem record_or_display_required_witness:
  "main stub (default_args ''data.npz'') 0 =
     Inl (Exception msg_record_or_display, init_state 0) \<and>
   check_config (normalize_recordto ((default_args ''data.npz'')\<lparr>display := True\<rparr>))
     \<noteq> Inl (Exception msg_record_or_display)"
  using record_or_display_required [of "default_args ''data.npz''" stub 0]
    record_or_display_required [of "(default_args ''data.npz'')\<lparr>display := True\<rparr>" stub 0]
  by (simp add: default_args_def)

text \<open>
  C7. With Q-learning asked for and no record folder, the script raises before any
  collaborator is called (the exception of line 70 when plots are displayed, the one
  of line 67 otherwise, which is checked first). With a record folder, the checks do
  not raise the exception of line 70.
\<close>

theorem qlearning_requires_record_folder:
  "(qlearning a \<and> recordto a = [] \<longrightarrow>
      main c a w =
        Inl (Exception (if display a then msg_record_folder else msg_record_or_display),
             init_state w)) \<and>
   (recordto a \<noteq> [] \<longrightarrow>
      check_config (normalize_recordto a) \<noteq> Inl (Exception msg_record_folder))"
proof (intro conjI impI)
  assume h: "qlearning a \<and> recordto a = []"
  then have "check_config (normalize_recordto a) =
      Inl (Exception (if display a then msg_record_folder else msg_record_or_display))"
    by (simp add: check_config_def recordto_normalize normalize_fields)
  with h show "main c a w =
        Inl (Exception (if display a then msg_record_folder else msg_record_or_display),
             init_state w)"
    by (simp add: main_startup_Inl startup_no_dest)
next
  assume "recordto a \<noteq> []"
  then show "check_config (normalize_recordto a) \<noteq> Inl (Exception msg_record_folder)"
    by (auto simp: check_config_def recordto_normalize normalize_fields msgs_distinct)
qed

theorem qlearning_requires_record_folder_witness:
  "main stub ((default_args ''data.npz'')\<lparr>qlearning := True, display := True\<rparr>) 0 =
     Inl (Exception msg_record_folder, init_state 0) \<and>
   check_config (normalize_recordto
       ((default_args ''data.npz'')\<lparr>qlearning := True, recordto := ''out''\<rparr>))
     \<noteq> Inl (Exception msg_record_folder)"
  using qlearning_requires_record_folder
      [of "(default_args ''data.npz'')\<lparr>qlearning := True, display := True\<rparr>" stub 0]
    qlearning_requires_record_folder
      [of "(default_args ''data.npz'')\<lparr>qlearning := True, recordto := ''out''\<rparr>" stub 0]
  by (simp add: default_args_def)

text \<open>
  C6. When \<open>validation_ratio <= 0.0\<close> or \<open>validation_ratio >= 1.0\<close> the script
  raises, and the only collaborator it may have called is \<open>os.makedirs\<close>: no data is
  loaded, no model is built, nothing is trained. The error is one of the three
  configuration errors, unless \<open>os.makedirs\<close> itself raised. The ValueError of line
  73 is raised exactly when the two earlier checks pass and the ratio is out of
  range, and never for a ratio strictly between 0 and 1.
\<close>

theorem validation_ratio_checked:
  "(fle (validation_ratio a) (Fin 0) \<or> fge (validation_ratio a) (Fin 1) \<longrightarrow>
      (\<exists>e st. main c a w = Inl (e, st) \<and> list_all is_makedirs (trace st) \<and>
         (e \<in> {Exception msg_record_or_display, Exception msg_record_folder,
                 ValueError msg_validation_ratio} \<or>
          (\<exists>p. trace st = [E_makedirs p (Inl e)])))) \<and>
   (check_config (normalize_recordto a) = Inl (ValueError msg_validation_ratio) \<longleftrightarrow>
      (recordto a \<noteq> [] \<or> display a) \<and> \<not> (qlearning a \<and> recordto a = []) \<and>
      (fle (validation_ratio a) (Fin 0) \<or> fge (validation_ratio a) (Fin 1))) \<and>
   (flt (Fin 0) (validation_ratio a) \<and> flt (validation_ratio a) (Fin 1) \<longrightarrow>
      check_config (normalize_recordto a) \<noteq> Inl (ValueError msg_validation_ratio))"
proof (intro conjI impI)
  assume bad: "fle (validation_ratio a) (Fin 0) \<or> fge (validation_ratio a) (Fin 1)"
  then obtain e where e: "check_config (normalize_recordto a) = Inl e"
    and cfg: "e \<in> {Exception msg_record_or_display, Exception msg_record_folder,
           ValueError msg_validation_ratio}"
    using check_config_range [of "normalize_recordto a"] by (auto simp: normalize_fields)
  show "\<exists>e st. main c a w = Inl (e, st) \<and> list_all is_makedirs (trace st) \<and>
         (e \<in> {Exception msg_record_or_display, Exception msg_record_folder,
                 ValueError msg_validation_ratio} \<or>
          (\<exists>p. trace st = [E_makedirs p (Inl e)]))"
  proof (cases "recordto a = []")
    case True
    then have "main c a w = Inl (e, init_state w)"
      using e by (simp add: main_startup_Inl startup_no_dest)
    then show ?thesis using cfg by (auto simp: init_state_def)
  next
    case False
    then obtain st r
      where st: "startup c a w = Inl (case r of Inl e' \<Rightarrow> e' | Inr u \<Rightarrow> e, st)"
        and tr: "trace st = [E_makedirs (recordto (normalize_recordto a)) r]"
      using startup_dest [OF False e, of c w] by blast
    have "main c a w = Inl (case r of Inl e' \<Rightarrow> e' | Inr u \<Rightarrow> e, st)"
      using st by (rule main_startup_Inl)
    then show ?thesis using tr cfg by (cases r) auto
  qed
next
  show "check_config (normalize_recordto a) = Inl (ValueError msg_validation_ratio) \<longleftrightarrow>
      (recordto a \<noteq> [] \<or> display a) \<and> \<not> (qlearning a \<and> recordto a = []) \<and>
      (fle (validation_ratio a) (Fin 0) \<or> fge (validation_ratio a) (Fin 1))"
    by (auto simp: check_config_def recordto_normalize normalize_fields)
next
  assume "flt (Fin 0) (validation_ratio a) \<and> flt (validation_ratio a) (Fin 1)"
  then show "check_config (normalize_recordto a) \<noteq> Inl (ValueError msg_validation_ratio)"
    by (auto simp: check_config_def recordto_normalize normalize_fields flt_def fge_def)
qed

theorem validation_ratio_checked_witness:
  "(\<exists>e st.
      main stub ((default_args ''data.npz'')\<lparr>recordto := ''out'', validation_ratio := Fin 1\<rparr>) 0
        = Inl (e, st) \<and> list_all is_makedirs (trace st) \<and>
      (e \<in> {Exception msg_record_or_display, Exception msg_record_folder,
              ValueError msg_validation_ratio} \<or>
       (\<exists>p. trace st = [E_makedirs p (Inl e)]))) \<and>
   check_config (normalize_recordto
     ((default_args ''data.npz'')\<lparr>recordto := ''out'', validation_ratio := Fin 1\<rparr>))
     = Inl (ValueError msg_validation_ratio) \<and>
   check_config (normalize_recordto ((default_args ''data.npz'')\<lparr>recordto := ''out''\<rparr>))
     \<noteq> Inl (ValueError msg_validation_ratio)"
  using validation_ratio_checked
      [of "(default_args ''data.npz'')\<lparr>recordto := ''out'', validation_ratio := Fin 1\<rparr>" stub 0]
    validation_ratio_checked [of "(default_args ''data.npz'')\<lparr>recordto := ''out''\<rparr>" stub 0]
  by (simp add: default_args_def fge_def flt_def)

subsection \<open>The seed\<close>

lemma startup_past_checks:
  assumes cfg: "check_config (normalize_recordto a) = Inr ()"
    and dir: "recordto a = [] \<or> fst (os_makedirs c (recordto (normalize_recordto a)) w) = Inr ()"
  shows "\<exists>st. startup c a w = init_seed c (normalize_recordto a) st \<and>
           seeds (trace st) = [] \<and> clock_reads (trace st) = []"
  using assms
  by (auto simp: startup_def make_record_dir_def recordto_normalize thenE_def skip_def
      lift_def call_def init_state_def seeds_def clock_reads_def split: prod.splits sum.splits)

lemma init_seed_given:
  "seed a = Some s \<Longrightarrow> s \<noteq> 0 \<Longrightarrow>
   seeds (trace (final_state (init_seed c a st))) = seeds (trace st) @ [s] \<and>
   clock_reads (trace (final_state (init_seed c a st))) = clock_reads (trace st)"
  by (auto simp: init_seed_def seed_truthy_def call_def final_state_def seeds_def
      clock_reads_def split: prod.splits sum.splits)

lemma init_seed_clock:
  "seed a = None \<or> seed a = Some 0 \<Longrightarrow>
   \<exists>r. clock_reads (trace (final_state (init_seed c a st))) = clock_reads (trace st) @ [r] \<and>
     seeds (trace (final_state (init_seed c a st))) = seeds (trace st) @
       (case r of Inl e \<Rightarrow> [] | Inr t \<Rightarrow> (case py_int t of Inl e \<Rightarrow> [] | Inr n \<Rightarrow> [n]))"
  by (auto simp: init_seed_def seed_truthy_def call_def final_state_def seeds_def thenE_def
      lift_def clock_reads_def split: prod.splits sum.splits)

text \<open>
  C10. In a run that gets past the checks (and whose \<open>os.makedirs\<close>, if called,
  returned), a seed given and different from 0 is the one value passed to
  \<open>np.random.seed\<close>, and the clock is not read. With no seed, or the seed 0, the
  clock is read once and the value passed is the integer part of its answer (nothing
  is passed when the clock or the conversion raises): the seed 0 is never used as a
  seed, and two such runs are seeded alike only when their clocks agree.
\<close>

theorem seed_from_argument_or_clock:
  assumes cfg: "check_config (normalize_recordto a) = Inr ()"
    and dir: "recordto a = [] \<or> fst (os_makedirs c (recordto (normalize_recordto a)) w) = Inr ()"
  shows "(\<forall>s. seed a = Some s \<and> s \<noteq> 0 \<longrightarrow>
            seeds (trace (final_state (startup c a w))) = [s] \<and>
            clock_reads (trace (final_state (startup c a w))) = []) \<and>
         (seed a = None \<or> seed a = Some 0 \<longrightarrow>
            (\<exists>r. clock_reads (trace (final_state (startup c a w))) = [r] \<and>
               seeds (trace (final_state (startup c a w))) =
                 (case r of Inl e \<Rightarrow> []
                  | Inr t \<Rightarrow> (case py_int t of Inl e \<Rightarrow> [] | Inr n \<Rightarrow> [n]))))"
proof -
  obtain st where st: "startup c a w = init_seed c (normalize_recordto a) st"
    and s0: "seeds (trace st) = []" and c0: "clock_reads (trace st) = []"
    using startup_past_checks [OF cfg dir] by blast
  show ?thesis
  proof (intro conjI allI impI)
    fix s assume "seed a = Some s \<and> s \<noteq> 0"
    then show "seeds (trace (final_state (startup c a w))) = [s]"
      "clock_reads (trace (final_state (startup c a w))) = []"
      using init_seed_given [of "normalize_recordto a" s c st] s0 c0
      by (simp_all add: st normalize_fields)
  next
    assume "seed a = None \<or> seed a = Some 0"
    then show "\<exists>r. clock_reads (trace (final_state (startup c a w))) = [r] \<and>
               seeds (trace (final_state (startup c a w))) =
                 (case r of Inl e \<Rightarrow> []
                  | Inr t \<Rightarrow> (case py_int t of Inl e \<Rightarrow> [] | Inr n \<Rightarrow> [n]))"
      using init_seed_clock [of "normalize_recordto a" c st] s0 c0
      by (simp add: st normalize_fields)
  qed
qed

theorem seed_from_argument_or_clock_witness:
  "seeds (trace (final_state
      (startup stub ((default_args ''data.npz'')\<lparr>display := True, seed := Some 42\<rparr>) 5))) = [42] \<and>
   clock_reads (trace (final_state
      (startup stub ((default_args ''data.npz'')\<lparr>display := True, seed := Some 42\<rparr>) 5))) = [] \<and>
   seeds (trace (final_state
      (startup stub ((default_args ''data.npz'')\<lparr>display := True, seed := Some 0\<rparr>) 5))) = [5] \<and>
   seeds (trace (final_state
      (startup stub ((default_args ''data.npz'')\<lparr>display := True, seed := Some 0\<rparr>) 7))) = [7] \<and>
   seeds (trace (final_state
      (startup stub ((default_args ''data.npz'')\<lparr>display := True\<rparr>) 7))) = [7]"
  using seed_from_argument_or_clock
      [of "(default_args ''data.npz'')\<lparr>display := True, seed := Some 42\<rparr>" stub 5]
    seed_from_argument_or_clock
      [of "(default_args ''data.npz'')\<lparr>display := True, seed := Some 0\<rparr>" stub 5]
  by (simp add: startup_def make_record_dir_def normalize_recordto_def default_args_def
      check_config_def fge_def thenE_def skip_def lift_def init_seed_def seed_truthy_def
      call_def stub_def init_state_def final_state_def seeds_def clock_reads_def)

subsection \<open>Traces only grow\<close>

lemma ext_call: "\<exists>tr. trace (final_state (call ev f st)) = trace st @ tr"
  by (auto simp: call_def final_state_def split: prod.splits sum.splits)

lemma ext_skip: "\<exists>tr. trace (final_state (skip st)) = trace st @ tr"
  by (simp add: skip_def final_state_def)

lemma ext_lift: "\<exists>tr. trace (final_state (lift r st)) = trace st @ tr"
  by (simp add: lift_def final_state_def split: sum.splits)

lemma ext_Inl: "\<exists>tr. trace (final_state (Inl (e, st))) = trace st @ tr"
  by (simp add: final_state_def)

lemma ext_thenE:
  assumes "\<exists>tr. trace (final_state m) = trace st @ tr"
    and "\<And>x s. \<exists>tr. trace (final_state (g x s)) = trace s @ tr"
  shows "\<exists>tr. trace (final_state (thenE m g)) = trace st @ tr"
proof (cases m)
  case (Inl x)
  then show ?thesis using assms(1) by (cases x) (simp add: thenE_def final_state_def)
next
  case (Inr y)
  obtain x s where y: "y = (x, s)" by (cases y)
  obtain tr where tr: "trace s = trace st @ tr"
    using assms(1) Inr y by (auto simp: final_state_def)
  obtain tr' where "trace (final_state (g x s)) = trace s @ tr'"
    using assms(2) by blast
  then show ?thesis using Inr y tr by (simp add: thenE_def)
qed

lemma first_call:
  assumes "\<And>x s. \<exists>tr. trace (final_state (g x s)) = trace s @ tr"
  shows "\<exists>r. trace (final_state (thenE (call ev f st) g)) ! length (trace st) = ev r"
proof (cases "f (world st)")
  case (Pair r w')
  show ?thesis
  proof (cases r)
    case (Inl e)
    then show ?thesis using Pair
      by (auto simp: thenE_def call_def final_state_def nth_append)
  next
    case (Inr x)
    obtain tr where "trace (final_state (g x (st\<lparr>world := w', trace := trace st @ [ev (Inr x)]\<rparr>)))
        = (trace st @ [ev (Inr x)]) @ tr"
      using assms [of x "st\<lparr>world := w', trace := trace st @ [ev (Inr x)]\<rparr>"] by auto
    then show ?thesis using Pair Inr
      by (auto simp: thenE_def call_def nth_append)
  qed
qed

lemma ext_later_figures:
  "\<exists>tr. trace (final_state (later_figures c a s)) = trace s @ tr"
  unfolding later_figures_def
  by (intro ext_thenE) (auto intro: ext_call ext_skip ext_Inl split: option.splits)

subsection \<open>The unweighted losses\<close>

lemma fdiv_zero_weight: "is_zero w \<Longrightarrow> \<not> is_finite (fdiv rnd x w)"
  by (cases x; cases w) (auto simp: fdiv_def)

lemma fdiv_finite:
  "is_finite x \<Longrightarrow> is_finite w \<Longrightarrow> \<not> is_zero w \<Longrightarrow>
   is_finite (fdiv rnd x w) \<longleftrightarrow> is_zero x \<or> is_finite (rnd (fin_val x / fin_val w))"
  by (cases x; cases w) (auto simp: fdiv_def)

lemma plotting_first_event:
  "\<exists>r. trace (final_state (plotting c a st)) ! length (trace st) =
     E_plot_losses (num_epochs a)
       (map (\<lambda>x. fdiv (fp_round c) x (weight_at (weights a) 0)) (temporalcoherence_loss_record st))
       (map (\<lambda>x. fdiv (fp_round c) x (weight_at (weights a) 1)) (proportionality_loss_record st))
       (map (\<lambda>x. fdiv (fp_round c) x (weight_at (weights a) 3)) (repeatability_loss_record st))
       (map (\<lambda>x. fdiv (fp_round c) x (weight_at (weights a) 2)) (causality_loss_record st))
       (display a) (recordto a) (qlearning a) r"
  unfolding plotting_def skip_def thenE_simps
  using first_call [of "\<lambda>u. later_figures c a" _ _ "unweight c a st", OF ext_later_figures]
  by (simp add: unweight_def)

text \<open>
  C9. The plotting stage starts by dividing each of the four loss records, entry by
  entry, by its weight (\<open>weights[0]\<close> for temporal coherence, \<open>weights[1]\<close> for
  proportionality, \<open>weights[2]\<close> for causality, \<open>weights[3]\<close> for repeatability), and
  the first call it makes draws the losses from the divided records. Nothing guards
  the division: it never raises, a weight that is zero makes every quotient an
  infinity or a NaN, and a finite entry divided by a finite weight other than zero
  is finite exactly when the rounding of the quotient does not overflow. The checks
  of the configuration do not look at the weights.
\<close>

theorem losses_divided_by_weights:
  "temporalcoherence_loss_record (unweight c a st) =
     map (\<lambda>x. fdiv (fp_round c) x (weight_at (weights a) 0)) (temporalcoherence_loss_record st) \<and>
   proportionality_loss_record (unweight c a st) =
     map (\<lambda>x. fdiv (fp_round c) x (weight_at (weights a) 1)) (proportionality_loss_record st) \<and>
   causality_loss_record (unweight c a st) =
     map (\<lambda>x. fdiv (fp_round c) x (weight_at (weights a) 2)) (causality_loss_record st) \<and>
   repeatability_loss_record (unweight c a st) =
     map (\<lambda>x. fdiv (fp_round c) x (weight_at (weights a) 3)) (repeatability_loss_record st) \<and>
   (\<exists>r. trace (final_state (plotting c a st)) ! length (trace st) =
      E_plot_losses (num_epochs a)
        (temporalcoherence_loss_record (unweight c a st))
        (proportionality_loss_record (unweight c a st))
        (repeatability_loss_record (unweight c a st))
        (causality_loss_record (unweight c a st))
        (display a) (recordto a) (qlearning a) r) \<and>
   (\<forall>x w. is_zero w \<longrightarrow> \<not> is_finite (fdiv (fp_round c) x w)) \<and>
   (\<forall>x w. is_finite x \<and> is_finite w \<and> \<not> is_zero w \<longrightarrow>
      (is_finite (fdiv (fp_round c) x w) \<longleftrightarrow>
         is_zero x \<or> is_finite (fp_round c (fin_val x / fin_val w)))) \<and>
   check_config (a\<lparr>weights := ws\<rparr>) = check_config a"
proof -
  have "\<exists>r. trace (final_state (plotting c a st)) ! length (trace st) =
      E_plot_losses (num_epochs a)
        (temporalcoherence_loss_record (unweight c a st))
        (proportionality_loss_record (unweight c a st))
        (repeatability_loss_record (unweight c a st))
        (causality_loss_record (unweight c a st))
        (display a) (recordto a) (qlearning a) r"
    using plotting_first_event [of c a st] by (simp add: unweight_def)
  then show ?thesis
    by (simp add: unweight_def fdiv_zero_weight fdiv_finite check_config_def)
qed

theorem losses_divided_by_weights_witness:
  "temporalcoherence_loss_record
     (unweight stub ((default_args ''data.npz'')\<lparr>weights := (Fin 0, Fin 5, Fin 2, NegZero)\<rparr>)
        ((init_state 0)\<lparr>temporalcoherence_loss_record := [Fin 1, Fin 0],
                        proportionality_loss_record := [Fin 10, Fin 5],
                        causality_loss_record := [Fin 3, Fin 1],
                        repeatability_loss_record := [Fin 4, Fin 2]\<rparr>)) = [PInf, NaN] \<and>
   proportionality_loss_record
     (unweight stub ((default_args ''data.npz'')\<lparr>weights := (Fin 0, Fin 5, Fin 2, NegZero)\<rparr>)
        ((init_state 0)\<lparr>temporalcoherence_loss_record := [Fin 1, Fin 0],
                        proportionality_loss_record := [Fin 10, Fin 5],
                        causality_loss_record := [Fin 3, Fin 1],
                        repeatability_loss_record := [Fin 4, Fin 2]\<rparr>)) = [Fin 2, Fin 1] \<and>
   repeatability_loss_record
     (unweight stub ((default_args ''data.npz'')\<lparr>weights := (Fin 0, Fin 5, Fin 2, NegZero)\<rparr>)
        ((init_state 0)\<lparr>temporalcoherence_loss_record := [Fin 1, Fin 0],
                        proportionality_loss_record := [Fin 10, Fin 5],
                        causality_loss_record := [Fin 3, Fin 1],
                        repeatability_loss_record := [Fin 4, Fin 2]\<rparr>)) = [NInf, NInf] \<and>
   \<not> is_finite (fdiv (fp_round stub) (Fin 1) (Fin 0)) \<and>
   is_finite (fdiv (fp_round stub) (Fin 10) (Fin 5)) \<and>
   check_config ((default_args ''data.npz'')\<lparr>display := True,
       weights := (Fin 0, Fin 5, Fin 2, NegZero)\<rparr>) = Inr ()"
  using losses_divided_by_weights
    [of stub "(default_args ''data.npz'')\<lparr>weights := (Fin 0, Fin 5, Fin 2, NegZero)\<rparr>"
       "(init_state 0)\<lparr>temporalcoherence_loss_record := [Fin 1, Fin 0],
                        proportionality_loss_record := [Fin 10, Fin 5],
                        causality_loss_record := [Fin 3, Fin 1],
                        repeatability_loss_record := [Fin 4, Fin 2]\<rparr>"]
  by (simp add: unweight_def default_args_def init_state_def fdiv_def stub_def
      check_config_def fge_def)

subsection \<open>The Q-learning loops, when they return\<close>

lemma py_index_nonneg: "0 \<le> i \<Longrightarrow> py_index i n = Inr k \<longleftrightarrow> k = nat i \<and> nat i < n"
  by (auto simp: py_index_def)

lemma np_reshape_20_25:
  "np_reshape (stats_rewards sts) 20 25 = Inr m \<longleftrightarrow>
   length (stats_rewards sts) = 500 \<and> m = reward_rows sts"
  by (auto simp: np_reshape_def reward_rows_def)

lemma assign_slice_Inr:
  "0 \<le> i \<Longrightarrow> 0 \<le> j \<Longrightarrow> assign_slice t i j m = Inr t' \<longleftrightarrow>
   nat i < length t \<and> nat j < length (t ! nat i) \<and> t' = t[nat i := (t ! nat i)[nat j := m]]"
  by (auto simp: assign_slice_def py_index_def split: sum.splits if_splits)

lemma qlearning_trial_Inr:
  assumes "qlearning_trial c a ds s env e q st = Inr (u, st')" and "0 \<le> e" and "0 \<le> q"
  shows "\<exists>qit pol plugged ag sts. trace st' = trace st @ trial_events a ds env s q 
        \<lparr>t_qit = qit, t_policy = pol, t_plugged = plugged, t_agent = ag, t_stats = sts\<rparr> \<and>
     length (stats_rewards sts) = 500 \<and>
     nat e < length (test_performance st) \<and> nat q < length (test_performance st ! nat e) \<and>
     test_performance st' = (test_performance st)
        [nat e := (test_performance st ! nat e)[nat q := reward_rows sts]] \<and>
     states st' = states st \<and>
     temporalcoherence_loss_record st' = temporalcoherence_loss_record st \<and>
     proportionality_loss_record st' = proportionality_loss_record st \<and>
     causality_loss_record st' = causality_loss_record st \<and>
     repeatability_loss_record st' = repeatability_loss_record st"
proof (cases "verbose a")
  case True
  then show ?thesis
    using assms unfolding qlearning_trial_def
    by (auto simp: thenE_Inr call_Inr lift_Inr skip_Inr np_reshape_20_25 assign_slice_Inr
        trial_calls_def trial_events_def n_rbf_def n_test_episodes_def n_test_steps_def)
next
  case False
  then show ?thesis
    using assms unfolding qlearning_trial_def
    by (auto simp: thenE_Inr call_Inr lift_Inr skip_Inr np_reshape_20_25 assign_slice_Inr
        trial_calls_def trial_events_def n_rbf_def n_test_episodes_def n_test_steps_def)
qed


lemma forE_single: "forE [x] body st = body x st"
  by (cases "body x st") (auto split: prod.splits)

lemma forE_append:
  "forE (xs @ ys) body st =
     (case forE xs body st of Inl e \<Rightarrow> Inl e | Inr (u, s) \<Rightarrow> forE ys body s)"
  by (induction xs arbitrary: st) (auto split: sum.splits prod.splits)

lemma forE_snoc_Inr:
  "forE (xs @ [x]) body st = Inr (u, st') \<longleftrightarrow>
     (\<exists>s. forE xs body st = Inr ((), s) \<and> body x s = Inr ((), st'))"
  by (auto simp: forE_append forE_single split: sum.splits prod.splits)

lemma update_next_row:
  assumes "length A = n" and "n < length old"
  shows "(A @ drop n old)[n := v] = (A @ [v]) @ drop (Suc n) old"
proof -
  have "drop n old = old ! n # drop (Suc n) old"
    using assms(2) by (simp add: Cons_nth_drop_Suc)
  then show ?thesis using assms(1) by (simp add: list_update_append)
qed

lemma trials_Inr:
  assumes "forE (map int [0..<n]) (qlearning_trial c a ds s env e) st = Inr (u, st')"
    and "0 \<le> e"
  shows "\<exists>ts. length ts = n \<and>
     trace st' = trace st @
       concat (map (\<lambda>(q, t). trial_events a ds env s q t) (zip (map int [0..<n]) ts)) \<and>
     list_all (\<lambda>t. length (stats_rewards (t_stats t)) = 500) ts \<and>
     (0 < n \<longrightarrow> nat e < length (test_performance st) \<and>
        n \<le> length (test_performance st ! nat e)) \<and>
     test_performance st' = (test_performance st)
       [nat e := map (\<lambda>t. reward_rows (t_stats t)) ts @ drop n (test_performance st ! nat e)] \<and>
     states st' = states st \<and>
     temporalcoherence_loss_record st' = temporalcoherence_loss_record st \<and>
     proportionality_loss_record st' = proportionality_loss_record st \<and>
     causality_loss_record st' = causality_loss_record st \<and>
     repeatability_loss_record st' = repeatability_loss_record st"
  using assms(1)
proof (induction n arbitrary: st' u)
  case 0
  then show ?case by (intro exI[of _ "[]"]) simp
next
  case (Suc n)
  from Suc.prems obtain mid where
    mid: "forE (map int [0..<n]) (qlearning_trial c a ds s env e) st = Inr ((), mid)"
    and last: "qlearning_trial c a ds s env e (int n) mid = Inr ((), st')"
    by (auto simp: forE_snoc_Inr)
  from Suc.IH [OF mid] obtain ts where ts: "length ts = n"
    and tr: "trace mid = trace st @
       concat (map (\<lambda>(q, t). trial_events a ds env s q t) (zip (map int [0..<n]) ts))"
    and ok: "list_all (\<lambda>t. length (stats_rewards (t_stats t)) = 500) ts"
    and tp: "test_performance mid = (test_performance st)
       [nat e := map (\<lambda>t. reward_rows (t_stats t)) ts @ drop n (test_performance st ! nat e)]"
    and keep: "states mid = states st"
      "temporalcoherence_loss_record mid = temporalcoherence_loss_record st"
      "proportionality_loss_record mid = proportionality_loss_record st"
      "causality_loss_record mid = causality_loss_record st"
      "repeatability_loss_record mid = repeatability_loss_record st"
    by blast
  from qlearning_trial_Inr [OF last assms(2)] obtain qit pol plugged ag sts where
    tr': "trace st' = trace mid @ trial_events a ds env s (int n)
        \<lparr>t_qit = qit, t_policy = pol, t_plugged = plugged, t_agent = ag, t_stats = sts\<rparr>"
    and len: "length (stats_rewards sts) = 500"
    and ie: "nat e < length (test_performance mid)"
    and iq: "n < length (test_performance mid ! nat e)"
    and tp': "test_performance st' = (test_performance mid)
        [nat e := (test_performance mid ! nat e)[n := reward_rows sts]]"
    and keep': "states st' = states mid"
      "temporalcoherence_loss_record st' = temporalcoherence_loss_record mid"
      "proportionality_loss_record st' = proportionality_loss_record mid"
      "causality_loss_record st' = causality_loss_record mid"
      "repeatability_loss_record st' = repeatability_loss_record mid"
    by auto
  let ?t = "\<lparr>t_qit = qit, t_policy = pol, t_plugged = plugged, t_agent = ag, t_stats = sts\<rparr>"
  let ?old = "test_performance st ! nat e"
  let ?A = "map (\<lambda>t. reward_rows (t_stats t)) ts"
  have ie0: "nat e < length (test_performance st)" using ie tp by simp
  have row: "test_performance mid ! nat e = ?A @ drop n ?old" using tp ie0 by simp
  have n_old: "n < length ?old" using iq row ts by simp
  have "(?A @ drop n ?old)[n := reward_rows sts] = (?A @ [reward_rows sts]) @ drop (Suc n) ?old"
    using ts n_old by (intro update_next_row) simp_all
  then have tp'': "test_performance st' = (test_performance st)
       [nat e := map (\<lambda>t. reward_rows (t_stats t)) (ts @ [?t]) @ drop (Suc n) ?old]"
    using tp' row tp by simp
  have tr'': "trace st' = trace st @
       concat (map (\<lambda>(q, t). trial_events a ds env s q t)
         (zip (map int [0..<Suc n]) (ts @ [?t])))"
    using tr tr' ts by simp
  show ?case
    using ts ok len ie0 n_old tp'' tr'' keep keep'
    by (intro exI[of _ "ts @ [?t]"]) simp
qed


lemma record_loss_Inr:
  "0 \<le> i \<Longrightarrow> record_loss rec i hist = Inr r \<longleftrightarrow>
     hist \<noteq> [] \<and> nat i < length rec \<and> r = rec[nat i := hd hist]"
  by (cases hist) (auto simp: record_loss_def item0_def py_index_def split: sum.splits)

lemma record_losses_Inr:
  assumes "record_losses h e st = Inr (u, st')" and "0 \<le> e"
  shows "val_t_loss h \<noteq> [] \<and> val_p_loss h \<noteq> [] \<and> val_c_loss h \<noteq> [] \<and> val_r_loss h \<noteq> [] \<and>
     nat e < length (temporalcoherence_loss_record st) \<and>
     nat e < length (proportionality_loss_record st) \<and>
     nat e < length (causality_loss_record st) \<and>
     nat e < length (repeatability_loss_record st) \<and>
     st' = st\<lparr>temporalcoherence_loss_record :=
                 (temporalcoherence_loss_record st)[nat e := hd (val_t_loss h)],
               proportionality_loss_record :=
                 (proportionality_loss_record st)[nat e := hd (val_p_loss h)],
               causality_loss_record :=
                 (causality_loss_record st)[nat e := hd (val_c_loss h)],
               repeatability_loss_record :=
                 (repeatability_loss_record st)[nat e := hd (val_r_loss h)]\<rparr>"
  using assms unfolding record_losses_def
  by (auto simp: thenE_Inr lift_Inr skip_Inr record_loss_Inr)

lemma epoch_Inr:
  assumes run: "learning_epoch_body c a ds m env e st = Inr (u, st')"
    and e: "0 \<le> e"
    and rows: "list_all (\<lambda>row. length row = 10) (test_performance st)"
  shows "\<exists>ep. epoch_ok ep \<and>
     trace st' = trace st @ epoch_events a ds m env e ep \<and>
     nat e < length (test_performance st) \<and>
     test_performance st' = (test_performance st)[nat e := epoch_rows ep] \<and>
     states st' = Some (fst (fst ep)) \<and>
     nat e < length (temporalcoherence_loss_record st) \<and>
     nat e < length (proportionality_loss_record st) \<and>
     nat e < length (causality_loss_record st) \<and>
     nat e < length (repeatability_loss_record st) \<and>
     temporalcoherence_loss_record st' =
       (temporalcoherence_loss_record st)[nat e := hd (val_t_loss (snd (fst ep)))] \<and>
     proportionality_loss_record st' =
       (proportionality_loss_record st)[nat e := hd (val_p_loss (snd (fst ep)))] \<and>
     causality_loss_record st' =
       (causality_loss_record st)[nat e := hd (val_c_loss (snd (fst ep)))] \<and>
     repeatability_loss_record st' =
       (repeatability_loss_record st)[nat e := hd (val_r_loss (snd (fst ep)))]"
proof -
  from run obtain s h w1 st2 st3 where
    learn: "learn_states c ds m 1 (batch_size a) [] (display a) (validation_ratio a) (world st)
              = (Inr (s, h), w1)"
    and rec: "record_losses h e
        (st\<lparr>world := w1, trace := trace st @
              [E_learn_states m 1 (batch_size a) [] (display a) (validation_ratio a) (Inr (s, h))],
            states := Some s\<rparr>) = Inr ((), st2)"
    and plot: "(if e = 0 \<or> (e + 1) mod 5 = 0
            then call (E_plot_representation s (e + 1) (recordto a))
                   (plot_representation c ds s (e + 1) (recordto a)) st2
            else skip st2) = Inr ((), st3)"
    and trials: "forE (py_range n_qlearnings) (qlearning_trial c a ds s env e) st3 = Inr (u, st')"
    unfolding learning_epoch_body_def
    by (auto simp: thenE_Inr call_Inr)
  note r = record_losses_Inr [OF rec e]
  have st3: "trace st3 = trace st @
      [E_learn_states m 1 (batch_size a) [] (display a) (validation_ratio a) (Inr (s, h))] @
      (if e = 0 \<or> (e + 1) mod 5 = 0
       then [E_plot_representation s (e + 1) (recordto a) (Inr ())] else [])"
    "test_performance st3 = test_performance st"
    "states st3 = Some s"
    "temporalcoherence_loss_record st3 =
       (temporalcoherence_loss_record st)[nat e := hd (val_t_loss h)]"
    "proportionality_loss_record st3 =
       (proportionality_loss_record st)[nat e := hd (val_p_loss h)]"
    "causality_loss_record st3 = (causality_loss_record st)[nat e := hd (val_c_loss h)]"
    "repeatability_loss_record st3 =
       (repeatability_loss_record st)[nat e := hd (val_r_loss h)]"
    using plot r by (auto simp: call_Inr skip_Inr split: if_splits)
  from trials have "forE (map int [0..<10]) (qlearning_trial c a ds s env e) st3 = Inr (u, st')"
    by (simp add: py_range_def n_qlearnings_def)
  from trials_Inr [OF this e] obtain ts where ts: "length ts = 10"
    and tr: "trace st' = trace st3 @
       concat (map (\<lambda>(q, t). trial_events a ds env s q t) (zip (map int [0..<10]) ts))"
    and ok: "list_all (\<lambda>t. length (stats_rewards (t_stats t)) = 500) ts"
    and ie: "nat e < length (test_performance st3)"
    and ten: "10 \<le> length (test_performance st3 ! nat e)"
    and tp: "test_performance st' = (test_performance st3)
       [nat e := map (\<lambda>t. reward_rows (t_stats t)) ts @ drop 10 (test_performance st3 ! nat e)]"
    and keep: "states st' = states st3"
      "temporalcoherence_loss_record st' = temporalcoherence_loss_record st3"
      "proportionality_loss_record st' = proportionality_loss_record st3"
      "causality_loss_record st' = causality_loss_record st3"
      "repeatability_loss_record st' = repeatability_loss_record st3"
    by auto
  have "length (test_performance st ! nat e) = 10"
    using rows ie st3(2) by (simp add: list_all_length)
  then have tp': "test_performance st' =
      (test_performance st)[nat e := map (\<lambda>t. reward_rows (t_stats t)) ts]"
    using tp st3(2) by simp
  show ?thesis
    using ts ok r tr st3 tp' keep ie
    by (intro exI[of _ "((s, h), ts)"])
      (simp add: epoch_ok_def epoch_events_def epoch_rows_def py_range_def)
qed


lemma epoch_rows_ten: "epoch_ok ep \<Longrightarrow> length (epoch_rows ep) = 10"
  by (simp add: epoch_ok_def epoch_rows_def)

lemma epochs_Inr:
  assumes "forE (map int [0..<n]) (learning_epoch_body c a ds m env) st = Inr (u, st')"
    and rows: "list_all (\<lambda>row. length row = 10) (test_performance st)"
  shows "\<exists>eps. length eps = n \<and> list_all epoch_ok eps \<and>
     trace st' = trace st @
       concat (map (\<lambda>(e, ep). epoch_events a ds m env e ep) (zip (map int [0..<n]) eps)) \<and>
     (0 < n \<longrightarrow> n \<le> length (test_performance st) \<and>
        n \<le> length (temporalcoherence_loss_record st) \<and>
        n \<le> length (proportionality_loss_record st) \<and>
        n \<le> length (causality_loss_record st) \<and>
        n \<le> length (repeatability_loss_record st)) \<and>
     test_performance st' = map epoch_rows eps @ drop n (test_performance st) \<and>
     temporalcoherence_loss_record st' =
       map (\<lambda>ep. hd (val_t_loss (snd (fst ep)))) eps @ drop n (temporalcoherence_loss_record st) \<and>
     proportionality_loss_record st' =
       map (\<lambda>ep. hd (val_p_loss (snd (fst ep)))) eps @ drop n (proportionality_loss_record st) \<and>
     causality_loss_record st' =
       map (\<lambda>ep. hd (val_c_loss (snd (fst ep)))) eps @ drop n (causality_loss_record st) \<and>
     repeatability_loss_record st' =
       map (\<lambda>ep. hd (val_r_loss (snd (fst ep)))) eps @ drop n (repeatability_loss_record st) \<and>
     states st' = (if n = 0 then states st else Some (fst (fst (last eps))))"
  using assms(1)
proof (induction n arbitrary: st' u)
  case 0
  then show ?case by (intro exI[of _ "[]"]) simp
next
  case (Suc n)
  from Suc.prems obtain mid where
    mid: "forE (map int [0..<n]) (learning_epoch_body c a ds m env) st = Inr ((), mid)"
    and last: "learning_epoch_body c a ds m env (int n) mid = Inr ((), st')"
    by (auto simp: forE_snoc_Inr)
  from Suc.IH [OF mid] obtain eps where eps: "length eps = n"
    and ok: "list_all epoch_ok eps"
    and tr: "trace mid = trace st @
       concat (map (\<lambda>(e, ep). epoch_events a ds m env e ep) (zip (map int [0..<n]) eps))"
    and tp: "test_performance mid = map epoch_rows eps @ drop n (test_performance st)"
    and rt: "temporalcoherence_loss_record mid =
       map (\<lambda>ep. hd (val_t_loss (snd (fst ep)))) eps @ drop n (temporalcoherence_loss_record st)"
    and rp: "proportionality_loss_record mid =
       map (\<lambda>ep. hd (val_p_loss (snd (fst ep)))) eps @ drop n (proportionality_loss_record st)"
    and rc: "causality_loss_record mid =
       map (\<lambda>ep. hd (val_c_loss (snd (fst ep)))) eps @ drop n (causality_loss_record st)"
    and rr: "repeatability_loss_record mid =
       map (\<lambda>ep. hd (val_r_loss (snd (fst ep)))) eps @ drop n (repeatability_loss_record st)"
    by blast
  have "list_all (\<lambda>row. length row = 10) (map epoch_rows eps)"
    using ok by (induction eps) (simp_all add: epoch_rows_ten)
  moreover have "list_all (\<lambda>row. length row = 10) (drop n (test_performance st))"
    using rows by (auto simp: list_all_iff dest: in_set_dropD)
  ultimately have rows_mid: "list_all (\<lambda>row. length row = 10) (test_performance mid)"
    using tp by simp
  from epoch_Inr [OF last _ rows_mid] obtain ep where ep: "epoch_ok ep"
    and tr': "trace st' = trace mid @ epoch_events a ds m env (int n) ep"
    and i0: "n < length (test_performance mid)"
    and tp': "test_performance st' = (test_performance mid)[n := epoch_rows ep]"
    and s': "states st' = Some (fst (fst ep))"
    and i1: "n < length (temporalcoherence_loss_record mid)"
      "n < length (proportionality_loss_record mid)"
      "n < length (causality_loss_record mid)"
      "n < length (repeatability_loss_record mid)"
    and r': "temporalcoherence_loss_record st' =
       (temporalcoherence_loss_record mid)[n := hd (val_t_loss (snd (fst ep)))]"
      "proportionality_loss_record st' =
       (proportionality_loss_record mid)[n := hd (val_p_loss (snd (fst ep)))]"
      "causality_loss_record st' =
       (causality_loss_record mid)[n := hd (val_c_loss (snd (fst ep)))]"
      "repeatability_loss_record st' =
       (repeatability_loss_record mid)[n := hd (val_r_loss (snd (fst ep)))]"
    by auto
  have n0: "n < length (test_performance st)" using i0 tp eps by simp
  have n1: "n < length (temporalcoherence_loss_record st)"
    "n < length (proportionality_loss_record st)"
    "n < length (causality_loss_record st)"
    "n < length (repeatability_loss_record st)"
    using i1 rt rp rc rr eps by simp_all
  have tp'': "test_performance st' = map epoch_rows (eps @ [ep]) @ drop (Suc n) (test_performance st)"
    using tp' tp update_next_row [of "map epoch_rows eps" n "test_performance st" "epoch_rows ep"]
      eps n0 by simp
  have rt'': "temporalcoherence_loss_record st' =
       map (\<lambda>ep. hd (val_t_loss (snd (fst ep)))) (eps @ [ep]) @
       drop (Suc n) (temporalcoherence_loss_record st)"
    using r'(1) rt update_next_row [of "map (\<lambda>ep. hd (val_t_loss (snd (fst ep)))) eps" n
        "temporalcoherence_loss_record st"] eps n1(1) by simp
  have rp'': "proportionality_loss_record st' =
       map (\<lambda>ep. hd (val_p_loss (snd (fst ep)))) (eps @ [ep]) @
       drop (Suc n) (proportionality_loss_record st)"
    using r'(2) rp update_next_row [of "map (\<lambda>ep. hd (val_p_loss (snd (fst ep)))) eps" n
        "proportionality_loss_record st"] eps n1(2) by simp
  have rc'': "causality_loss_record st' =
       map (\<lambda>ep. hd (val_c_loss (snd (fst ep)))) (eps @ [ep]) @
       drop (Suc n) (causality_loss_record st)"
    using r'(3) rc update_next_row [of "map (\<lambda>ep. hd (val_c_loss (snd (fst ep)))) eps" n
        "causality_loss_record st"] eps n1(3) by simp
  have rr'': "repeatability_loss_record st' =
       map (\<lambda>ep. hd (val_r_loss (snd (fst ep)))) (eps @ [ep]) @
       drop (Suc n) (repeatability_loss_record st)"
    using r'(4) rr update_next_row [of "map (\<lambda>ep. hd (val_r_loss (snd (fst ep)))) eps" n
        "repeatability_loss_record st"] eps n1(4) by simp
  have tr'': "trace st' = trace st @
       concat (map (\<lambda>(e, ep). epoch_events a ds m env e ep)
         (zip (map int [0..<Suc n]) (eps @ [ep])))"
    using tr tr' eps by simp
  show ?case
    using eps ok ep n0 n1 tp'' rt'' rp'' rc'' rr'' tr'' s'
    by (intro exI[of _ "eps @ [ep]"]) simp
qed


lemma qlearning_experiment_Inr:
  assumes "qlearning_experiment c a ds m st = Inr (u, st')"
  shows "\<exists>env eps. 0 \<le> num_epochs a \<and> length eps = nat (num_epochs a) \<and>
     list_all epoch_ok eps \<and>
     trace st' = trace st @
       E_make_env (env_args ds) (visible_train a) 25 m (Inr env) #
       concat (map (\<lambda>(e, ep). epoch_events a ds m env e ep)
                 (zip (py_range (num_epochs a)) eps)) \<and>
     test_performance st' = map epoch_rows eps \<and>
     temporalcoherence_loss_record st' = map (\<lambda>ep. hd (val_t_loss (snd (fst ep)))) eps \<and>
     proportionality_loss_record st' = map (\<lambda>ep. hd (val_p_loss (snd (fst ep)))) eps \<and>
     causality_loss_record st' = map (\<lambda>ep. hd (val_c_loss (snd (fst ep)))) eps \<and>
     repeatability_loss_record st' = map (\<lambda>ep. hd (val_r_loss (snd (fst ep)))) eps \<and>
     states st' = (if num_epochs a = 0 then states st else Some (fst (fst (last eps))))"
proof -
  let ?N = "nat (num_epochs a)"
  let ?z = "replicate ?N (Fin 0)"
  let ?t = "replicate ?N (replicate 10 (replicate 20 (replicate 25 (Fin 0))))"
  from assms obtain env w1 where pos: "0 \<le> num_epochs a"
    and env: "make_env c (env_args ds) (visible_train a) 25 m (world st) = (Inr env, w1)"
    and loop: "forE (map int [0..<?N]) (learning_epoch_body c a ds m env)
       (st\<lparr>test_performance := ?t, world := w1,
           trace := trace st @ [E_make_env (env_args ds) (visible_train a) 25 m (Inr env)],
           temporalcoherence_loss_record := ?z, proportionality_loss_record := ?z,
           causality_loss_record := ?z, repeatability_loss_record := ?z\<rparr>) = Inr (u, st')"
    unfolding qlearning_experiment_def
    by (auto simp: thenE_Inr call_Inr lift_Inr np_zeros4_def np_zeros_def py_range_def
        n_qlearnings_def n_test_episodes_def n_test_steps_def split: if_splits)
  from epochs_Inr [OF loop] obtain eps where "length eps = ?N" "list_all epoch_ok eps"
    "trace st' = (trace st @ [E_make_env (env_args ds) (visible_train a) 25 m (Inr env)]) @
       concat (map (\<lambda>(e, ep). epoch_events a ds m env e ep) (zip (map int [0..<?N]) eps))"
    "test_performance st' = map epoch_rows eps @ drop ?N ?t"
    "temporalcoherence_loss_record st' =
       map (\<lambda>ep. hd (val_t_loss (snd (fst ep)))) eps @ drop ?N ?z"
    "proportionality_loss_record st' =
       map (\<lambda>ep. hd (val_p_loss (snd (fst ep)))) eps @ drop ?N ?z"
    "causality_loss_record st' =
       map (\<lambda>ep. hd (val_c_loss (snd (fst ep)))) eps @ drop ?N ?z"
    "repeatability_loss_record st' =
       map (\<lambda>ep. hd (val_r_loss (snd (fst ep)))) eps @ drop ?N ?z"
    "states st' = (if ?N = 0 then states st else Some (fst (fst (last eps))))"
    by (auto simp: list_all_length)
  then show ?thesis using pos
    by (intro exI[of _ env] exI[of _ eps]) (auto simp: py_range_def)
qed

lemma init_seed_Inr:
  "init_seed c a st = Inr (u, st') \<Longrightarrow>
   \<exists>tr. trace st' = trace st @ tr \<and> list_all is_setup tr \<and> states st' = states st \<and>
     test_performance st' = test_performance st \<and>
     temporalcoherence_loss_record st' = temporalcoherence_loss_record st \<and>
     proportionality_loss_record st' = proportionality_loss_record st \<and>
     causality_loss_record st' = causality_loss_record st \<and>
     repeatability_loss_record st' = repeatability_loss_record st"
  unfolding init_seed_def
  by (auto simp: thenE_Inr call_Inr lift_Inr split: if_splits)

lemma startup_Inr:
  assumes "startup c a w = Inr (u, st)"
  shows "list_all is_setup (trace st) \<and> states st = None \<and> test_performance st = [] \<and>
     check_config (normalize_recordto a) = Inr ()"
proof -
  from assms obtain st1 where
    st1: "make_record_dir c (normalize_recordto a) (init_state w) = Inr ((), st1)"
    and cfg: "check_config (normalize_recordto a) = Inr ()"
    and sd: "init_seed c (normalize_recordto a) st1 = Inr (u, st)"
    unfolding startup_def by (auto simp: thenE_Inr skip_Inr lift_Inr)
  from st1 have "list_all is_setup (trace st1) \<and> states st1 = None \<and> test_performance st1 = []"
    by (auto simp: make_record_dir_def call_Inr skip_Inr init_state_def split: if_splits)
  then show ?thesis using init_seed_Inr [OF sd] cfg by auto
qed

lemma build_model_Inr:
  assumes "build_model c a st = Inr ((ds, m), st')"
  shows "\<exists>sh. trace st' = trace st @
       [E_load_data (training_data a) (Inr ds),
        E_Priors_model sh (state_dim a) (learning_rate a) (l1_reg a) (weights a)
          (Fin (1 / 1000000)) (tanh_units a) (Inr m)] \<and>
     states st' = states st \<and> test_performance st' = test_performance st"
  using assms unfolding build_model_def
  by (auto simp: thenE_Inr call_Inr lift_Inr)

lemma normalize_more:
  "visible_train (normalize_recordto a) = visible_train a"
  "training_data (normalize_recordto a) = training_data a"
  "verbose (normalize_recordto a) = verbose a"
  "batch_size (normalize_recordto a) = batch_size a"
  by (simp_all add: normalize_recordto_def)


lemma before_plots_Inr:
  assumes "before_plots c a w = Inr (u, st)"
  shows "\<exists>pre ds m st0. list_all is_setup pre \<and> trace st0 = pre \<and> states st0 = None \<and>
     E_load_data (training_data a) (Inr ds) \<in> set pre \<and>
     check_config (normalize_recordto a) = Inr () \<and>
     run_mode c (normalize_recordto a) ds m st0 = Inr (u, st)"
proof -
  from assms obtain st1 ds m st2 where s1: "startup c a w = Inr ((), st1)"
    and s2: "build_model c (normalize_recordto a) st1 = Inr ((ds, m), st2)"
    and s3: "run_mode c (normalize_recordto a) ds m st2 = Inr (u, st)"
    unfolding before_plots_def by (auto simp: thenE_Inr)
  from startup_Inr [OF s1] build_model_Inr [OF s2] s3 show ?thesis
    by (intro exI[of _ "trace st2"] exI[of _ ds] exI[of _ m] exI[of _ st2])
      (auto simp: normalize_more)
qed

lemma qlearning_run:
  assumes run: "before_plots c a w = Inr (u, st)" and ql: "qlearning a"
  shows "\<exists>pre ds m env eps. list_all is_setup pre \<and>
     E_load_data (training_data a) (Inr ds) \<in> set pre \<and>
     0 \<le> num_epochs a \<and> length eps = nat (num_epochs a) \<and> list_all epoch_ok eps \<and>
     trace st = pre @
       E_make_env (env_args ds) (visible_train a) 25 m (Inr env) #
       concat (map (\<lambda>(e, ep). epoch_events (normalize_recordto a) ds m env e ep)
                 (zip (py_range (num_epochs a)) eps)) \<and>
     test_performance st = map epoch_rows eps \<and>
     temporalcoherence_loss_record st = map (\<lambda>ep. hd (val_t_loss (snd (fst ep)))) eps \<and>
     proportionality_loss_record st = map (\<lambda>ep. hd (val_p_loss (snd (fst ep)))) eps \<and>
     causality_loss_record st = map (\<lambda>ep. hd (val_c_loss (snd (fst ep)))) eps \<and>
     repeatability_loss_record st = map (\<lambda>ep. hd (val_r_loss (snd (fst ep)))) eps \<and>
     states st = (if num_epochs a = 0 then None else Some (fst (fst (last eps))))"
proof -
  from before_plots_Inr [OF run] obtain pre ds m st0 where
    pre: "list_all is_setup pre" "trace st0 = pre" "states st0 = None"
      "E_load_data (training_data a) (Inr ds) \<in> set pre"
    and mode: "run_mode c (normalize_recordto a) ds m st0 = Inr (u, st)"
    by blast
  from mode ql have "qlearning_experiment c (normalize_recordto a) ds m st0 = Inr (u, st)"
    by (simp add: run_mode_def normalize_fields)
  from qlearning_experiment_Inr [OF this] obtain env eps where
    "0 \<le> num_epochs a" "length eps = nat (num_epochs a)" "list_all epoch_ok eps"
    "trace st = trace st0 @
       E_make_env (env_args ds) (visible_train a) 25 m (Inr env) #
       concat (map (\<lambda>(e, ep). epoch_events (normalize_recordto a) ds m env e ep)
                 (zip (py_range (num_epochs a)) eps))"
    "test_performance st = map epoch_rows eps"
    "temporalcoherence_loss_record st = map (\<lambda>ep. hd (val_t_loss (snd (fst ep)))) eps"
    "proportionality_loss_record st = map (\<lambda>ep. hd (val_p_loss (snd (fst ep)))) eps"
    "causality_loss_record st = map (\<lambda>ep. hd (val_c_loss (snd (fst ep)))) eps"
    "repeatability_loss_record st = map (\<lambda>ep. hd (val_r_loss (snd (fst ep)))) eps"
    "states st = (if num_epochs a = 0 then states st0 else Some (fst (fst (last eps))))"
    unfolding normalize_fields normalize_more by blast
  with pre show ?thesis
    by (intro exI[of _ pre] exI[of _ ds] exI[of _ m] exI[of _ env] exI[of _ eps]) simp
qed


subsection \<open>What the trace of a Q-learning run holds\<close>

lemma projections_append:
  "trained (xs @ ys) = trained xs @ trained ys"
  "plotted (xs @ ys) = plotted xs @ plotted ys"
  "rollouts (xs @ ys) = rollouts xs @ rollouts ys"
  by (simp_all add: trained_def plotted_def rollouts_def)

lemma projections_Cons:
  "trained (x # xs) = trained_of x @ trained xs"
  "plotted (x # xs) = plotted_of x @ plotted xs"
  "rollouts (x # xs) = rollout_of x @ rollouts xs"
  "trained [] = []" "plotted [] = []" "rollouts [] = []"
  by (simp_all add: trained_def plotted_def rollouts_def)

lemma projections_concat:
  "trained (concat xss) = concat (map trained xss)"
  "plotted (concat xss) = concat (map plotted xss)"
  "rollouts (concat xss) = concat (map rollouts xss)"
  by (induction xss) (simp_all add: projections_append projections_Cons)

lemma projections_setup:
  "list_all is_setup pre \<Longrightarrow>
   trained pre = [] \<and> plotted pre = [] \<and> rollouts pre = [] \<and> filter is_trial_call pre = []"
proof (induction pre)
  case Nil
  then show ?case by (simp add: projections_Cons)
next
  case (Cons x xs)
  then show ?case by (cases x) (simp_all add: projections_Cons)
qed

lemma trial_events_projections:
  "trained (trial_events a ds env s q t) = []"
  "plotted (trial_events a ds env s q t) = []"
  "rollouts (trial_events a ds env s q t) = [t_stats t]"
  "filter is_trial_call (trial_events a ds env s q t) = trial_calls ds env s t"
  by (simp_all add: trial_events_def trial_calls_def projections_Cons)

lemma trials_projections:
  assumes "length qs = length ts"
  shows "trained (concat (map (\<lambda>(q, t). trial_events a ds env s q t) (zip qs ts))) = []"
    "plotted (concat (map (\<lambda>(q, t). trial_events a ds env s q t) (zip qs ts))) = []"
    "rollouts (concat (map (\<lambda>(q, t). trial_events a ds env s q t) (zip qs ts))) = map t_stats ts"
    "filter is_trial_call (concat (map (\<lambda>(q, t). trial_events a ds env s q t) (zip qs ts)))
       = concat (map (trial_calls ds env s) ts)"
  using assms
  by (induction qs ts rule: list_induct2)
    (simp_all add: projections_append projections_Cons trial_events_projections)

lemma epoch_events_projections:
  assumes "epoch_ok ep"
  shows "trained (epoch_events a ds m env e ep) = [(1, [], fst (fst ep), snd (fst ep))]"
    "plotted (epoch_events a ds m env e ep) = (if e = 0 \<or> 5 dvd (e + 1) then [e + 1] else [])"
    "rollouts (epoch_events a ds m env e ep) = map t_stats (snd ep)"
    "filter is_trial_call (epoch_events a ds m env e ep)
       = concat (map (trial_calls ds env (fst (fst ep))) (snd ep))"
proof -
  have len: "length (py_range 10) = length (snd ep)"
    using assms by (simp add: epoch_ok_def py_range_def)
  have dvd: "(e + 1) mod 5 = 0 \<longleftrightarrow> 5 dvd (e + 1)" by presburger
  show "trained (epoch_events a ds m env e ep) = [(1, [], fst (fst ep), snd (fst ep))]"
    "plotted (epoch_events a ds m env e ep) = (if e = 0 \<or> 5 dvd (e + 1) then [e + 1] else [])"
    "rollouts (epoch_events a ds m env e ep) = map t_stats (snd ep)"
    "filter is_trial_call (epoch_events a ds m env e ep)
       = concat (map (trial_calls ds env (fst (fst ep))) (snd ep))"
    unfolding epoch_events_def
    by (cases "fst ep"; simp add: projections_append projections_Cons trials_projections [OF len] dvd)+
qed

lemma epochs_projections:
  assumes "length es = length eps" and "list_all epoch_ok eps"
  shows "trained (concat (map (\<lambda>(e, ep). epoch_events a ds m env e ep) (zip es eps)))
       = map (\<lambda>ep. (1, [], fst (fst ep), snd (fst ep))) eps"
    "plotted (concat (map (\<lambda>(e, ep). epoch_events a ds m env e ep) (zip es eps)))
       = map (\<lambda>e. e + 1) (filter (\<lambda>e. e = 0 \<or> 5 dvd (e + 1)) es)"
    "rollouts (concat (map (\<lambda>(e, ep). epoch_events a ds m env e ep) (zip es eps)))
       = concat (map (\<lambda>ep. map t_stats (snd ep)) eps)"
    "filter is_trial_call (concat (map (\<lambda>(e, ep). epoch_events a ds m env e ep) (zip es eps)))
       = concat (map (\<lambda>ep. concat (map (trial_calls ds env (fst (fst ep))) (snd ep))) eps)"
  using assms
  by (induction es eps rule: list_induct2)
    (simp_all add: projections_append projections_Cons epoch_events_projections)

lemma qlearning_trace:
  assumes run: "before_plots c a w = Inr (u, st)" and ql: "qlearning a"
  shows "\<exists>ds env eps. 0 \<le> num_epochs a \<and> length eps = nat (num_epochs a) \<and>
     list_all epoch_ok eps \<and>
     E_load_data (training_data a) (Inr ds) \<in> set (trace st) \<and>
     (\<exists>m. E_make_env (env_args ds) (visible_train a) 25 m (Inr env) \<in> set (trace st)) \<and>
     trained (trace st) = map (\<lambda>ep. (1, [], fst (fst ep), snd (fst ep))) eps \<and>
     plotted (trace st) =
       map (\<lambda>e. e + 1) (filter (\<lambda>e. e = 0 \<or> 5 dvd (e + 1)) (py_range (num_epochs a))) \<and>
     rollouts (trace st) = concat (map (\<lambda>ep. map t_stats (snd ep)) eps) \<and>
     filter is_trial_call (trace st) =
       concat (map (\<lambda>ep. concat (map (trial_calls ds env (fst (fst ep))) (snd ep))) eps) \<and>
     test_performance st = map epoch_rows eps \<and>
     temporalcoherence_loss_record st = map (\<lambda>ep. hd (val_t_loss (snd (fst ep)))) eps \<and>
     proportionality_loss_record st = map (\<lambda>ep. hd (val_p_loss (snd (fst ep)))) eps \<and>
     causality_loss_record st = map (\<lambda>ep. hd (val_c_loss (snd (fst ep)))) eps \<and>
     repeatability_loss_record st = map (\<lambda>ep. hd (val_r_loss (snd (fst ep)))) eps"
proof -
  from qlearning_run [OF run ql] obtain pre ds m env eps where
    pre: "list_all is_setup pre" "E_load_data (training_data a) (Inr ds) \<in> set pre"
    and eps: "0 \<le> num_epochs a" "length eps = nat (num_epochs a)" "list_all epoch_ok eps"
    and tr: "trace st = pre @
       E_make_env (env_args ds) (visible_train a) 25 m (Inr env) #
       concat (map (\<lambda>(e, ep). epoch_events (normalize_recordto a) ds m env e ep)
                 (zip (py_range (num_epochs a)) eps))"
    and vars: "test_performance st = map epoch_rows eps"
      "temporalcoherence_loss_record st = map (\<lambda>ep. hd (val_t_loss (snd (fst ep)))) eps"
      "proportionality_loss_record st = map (\<lambda>ep. hd (val_p_loss (snd (fst ep)))) eps"
      "causality_loss_record st = map (\<lambda>ep. hd (val_c_loss (snd (fst ep)))) eps"
      "repeatability_loss_record st = map (\<lambda>ep. hd (val_r_loss (snd (fst ep)))) eps"
    by blast
  have len: "length (py_range (num_epochs a)) = length eps"
    using eps by (simp add: py_range_def)
  note p = projections_setup [OF pre(1)] epochs_projections [OF len eps(3)]
  show ?thesis
    using pre eps vars
    by (intro exI[of _ ds] exI[of _ env] exI[of _ eps])
      (auto simp: tr projections_append projections_Cons p)
qed


subsection \<open>Runs with cooperative collaborators return\<close>

lemma call_returns:
  "f (world st) = (Inr x, w') \<Longrightarrow>
   call ev f st = Inr (x, st\<lparr>world := w', trace := trace st @ [ev (Inr x)]\<rparr>)"
  by (simp add: call_def)

lemma forE_total:
  assumes "I st"
    and "\<And>x s. x \<in> set xs \<Longrightarrow> I s \<Longrightarrow> \<exists>s'. body x s = Inr ((), s') \<and> I s'"
  shows "\<exists>st'. forE xs body st = Inr ((), st') \<and> I st'"
  using assms
proof (induction xs arbitrary: st)
  case Nil
  then show ?case by simp
next
  case (Cons x xs)
  from Cons.prems obtain s' where s': "body x st = Inr ((), s')" "I s'"
    by (meson list.set_intros(1))
  have "\<exists>st'. forE xs body s' = Inr ((), st') \<and> I st'"
    using Cons.prems(2) s'(2) by (intro Cons.IH) auto
  then show ?case using s'(1) by simp
qed

lemma shaped_update:
  assumes "shaped n st" and "i < n" and "j < 10"
  shows "shaped n (st\<lparr>world := w, trace := tr,
      test_performance := (test_performance st)[i := (test_performance st ! i)[j := m]]\<rparr>)"
  using assms by (auto simp: shaped_def list_all_length nth_list_update)

lemma trial_total:
  assumes co: "cooperative c" and sh: "shaped n st"
    and e: "0 \<le> e" "nat e < n" and q: "0 \<le> q" "nat q < 10"
  shows "\<exists>st'. qlearning_trial c a ds s env e q st = Inr ((), st') \<and> shaped n st'"
proof -
  from co obtain qit w1 where h1: "Fitted_QIteration c 100 (num_actions ds) (world st) = (Inr qit, w1)"
    unfolding cooperative_def by metis
  from co obtain pol w2 where
    h2: "fit_sk c qit s (actions_int ds) (rewards ds) (Fin (9 / 10)) 10 True w1 = (Inr pol, w2)"
    unfolding cooperative_def by metis
  from co obtain pl w3 where h3: "Plug_policy c pol env w2 = (Inr pl, w3)"
    unfolding cooperative_def by metis
  from co obtain ag w4 where h4: "RoundBotAgent c pl w3 = (Inr ag, w4)"
    unfolding cooperative_def by metis
  from co obtain sts w5 where h5: "run_in_env c ag env 20 None w4 = (Inr sts, w5)"
    and len: "length (stats_rewards sts) = 500"
    unfolding cooperative_def by metis
  from co obtain w6 where h6: "print c q 20 (reward_ep sts) w5 = (Inr (), w6)"
    unfolding cooperative_def by metis
  have ie: "nat e < length (test_performance st)"
    and iq: "nat q < length (test_performance st ! nat e)"
    using sh e q by (auto simp: shaped_def list_all_length)
  have asg: "assign_slice (test_performance st) e q (reward_rows sts) =
      Inr ((test_performance st)[nat e := (test_performance st ! nat e)[nat q := reward_rows sts]])"
    using ie iq e(1) q(1) by (simp add: assign_slice_Inr)
  have rsh: "np_reshape (stats_rewards sts) 20 25 = Inr (reward_rows sts)"
    using len by (simp add: np_reshape_20_25)
  show ?thesis
  proof (cases "verbose a")
    case True
    then show ?thesis
      unfolding qlearning_trial_def n_rbf_def n_test_episodes_def n_test_steps_def
      using shaped_update [OF sh e(2) q(2)]
      by (simp add: thenE_def call_def lift_def skip_def h1 h2 h3 h4 h5 h6 rsh asg shaped_def)
  next
    case False
    then show ?thesis
      unfolding qlearning_trial_def n_rbf_def n_test_episodes_def n_test_steps_def
      using shaped_update [OF sh e(2) q(2)]
      by (simp add: thenE_def call_def lift_def skip_def h1 h2 h3 h4 h5 rsh asg shaped_def)
  qed
qed


lemma record_loss_returns:
  "0 \<le> e \<Longrightarrow> nat e < length rec \<Longrightarrow> hist \<noteq> [] \<Longrightarrow>
   record_loss rec e hist = Inr (rec[nat e := hd hist])"
  using record_loss_Inr [of e rec hist "rec[nat e := hd hist]"] by simp

lemma epoch_total:
  assumes co: "cooperative c" and sh: "shaped n st" and e: "0 \<le> e" "nat e < n"
  shows "\<exists>st'. learning_epoch_body c a ds m env e st = Inr ((), st') \<and> shaped n st'"
proof -
  from co obtain s h w1 where
    h1: "learn_states c ds m 1 (batch_size a) [] (display a) (validation_ratio a) (world st)
           = (Inr (s, h), w1)"
    and ne: "val_t_loss h \<noteq> []" "val_p_loss h \<noteq> []" "val_c_loss h \<noteq> []" "val_r_loss h \<noteq> []"
    unfolding cooperative_def by metis
  from co obtain w2 where
    h2: "plot_representation c ds s (e + 1) (recordto a) w1 = (Inr (), w2)"
    unfolding cooperative_def by metis
  let ?st2 = "st\<lparr>world := w1, trace := trace st @
      [E_learn_states m 1 (batch_size a) [] (display a) (validation_ratio a) (Inr (s, h))],
      states := Some s,
      temporalcoherence_loss_record :=
        (temporalcoherence_loss_record st)[nat e := hd (val_t_loss h)],
      proportionality_loss_record :=
        (proportionality_loss_record st)[nat e := hd (val_p_loss h)],
      causality_loss_record := (causality_loss_record st)[nat e := hd (val_c_loss h)],
      repeatability_loss_record :=
        (repeatability_loss_record st)[nat e := hd (val_r_loss h)]\<rparr>"
  have len: "nat e < length (temporalcoherence_loss_record st)"
    "nat e < length (proportionality_loss_record st)"
    "nat e < length (causality_loss_record st)"
    "nat e < length (repeatability_loss_record st)"
    using sh e by (simp_all add: shaped_def)
  have rec: "record_losses h e
      (st\<lparr>world := w1, trace := trace st @
        [E_learn_states m 1 (batch_size a) [] (display a) (validation_ratio a) (Inr (s, h))],
        states := Some s\<rparr>) = Inr ((), ?st2)"
    unfolding record_losses_def
    by (simp add: thenE_def lift_def skip_def record_loss_returns e len ne)
  have sh2: "shaped n ?st2" using sh by (simp add: shaped_def)
  obtain st3 where plot: "(if e = 0 \<or> (e + 1) mod 5 = 0
            then call (E_plot_representation s (e + 1) (recordto a))
                   (plot_representation c ds s (e + 1) (recordto a)) ?st2
            else skip ?st2) = Inr ((), st3)" and sh3: "shaped n st3"
    using sh2 h2 by (cases "e = 0 \<or> (e + 1) mod 5 = 0")
      (simp_all add: call_def skip_def shaped_def)
  have "\<exists>st'. forE (py_range n_qlearnings) (qlearning_trial c a ds s env e) st3 = Inr ((), st')
      \<and> shaped n st'"
  proof (rule forE_total [where I = "shaped n", OF sh3])
    fix q and x :: "('a, 'b) state"
    assume "q \<in> set (py_range n_qlearnings)" and "shaped n x"
    then have "shaped n x" "0 \<le> q" "nat q < 10"
      by (auto simp: py_range_def n_qlearnings_def)
    then show "\<exists>s'. qlearning_trial c a ds s env e q x = Inr ((), s') \<and> shaped n s'"
      using trial_total [OF co _ e] by blast
  qed
  then show ?thesis
    unfolding learning_epoch_body_def
    using h1 rec plot by (simp add: thenE_def call_def)
qed

lemma experiment_total:
  assumes co: "cooperative c" and n: "0 \<le> num_epochs a"
  shows "\<exists>st'. qlearning_experiment c a ds m st = Inr ((), st')"
proof -
  let ?N = "nat (num_epochs a)"
  let ?z = "replicate ?N (Fin 0)"
  let ?t = "replicate ?N (replicate 10 (replicate 20 (replicate 25 (Fin 0))))"
  from co obtain env w1 where
    h1: "make_env c (env_args ds) (visible_train a) 25 m (world st) = (Inr env, w1)"
    unfolding cooperative_def by metis
  let ?st1 = "st\<lparr>test_performance := ?t, world := w1,
           trace := trace st @ [E_make_env (env_args ds) (visible_train a) 25 m (Inr env)],
           temporalcoherence_loss_record := ?z, proportionality_loss_record := ?z,
           causality_loss_record := ?z, repeatability_loss_record := ?z\<rparr>"
  have sh: "shaped ?N ?st1" by (simp add: shaped_def list_all_length)
  have "\<exists>st'. forE (py_range (num_epochs a)) (learning_epoch_body c a ds m env) ?st1
      = Inr ((), st') \<and> shaped ?N st'"
  proof (rule forE_total [where I = "shaped ?N", OF sh])
    fix e and x :: "('a, 'b) state"
    assume "e \<in> set (py_range (num_epochs a))" and "shaped ?N x"
    then have "shaped ?N x" "0 \<le> e" "nat e < ?N"
      by (auto simp: py_range_def)
    then show "\<exists>s'. learning_epoch_body c a ds m env e x = Inr ((), s') \<and> shaped ?N s'"
      by (rule epoch_total [OF co])
  qed
  then show ?thesis
    unfolding qlearning_experiment_def n_qlearnings_def n_test_episodes_def n_test_steps_def
    using n h1 by (auto simp: thenE_def call_def lift_def np_zeros4_def np_zeros_def)
qed

lemma startup_total:
  assumes co: "cooperative c" and cfg: "check_config (normalize_recordto a) = Inr ()"
  shows "\<exists>st. startup c a w = Inr ((), st)"
proof -
  have "\<exists>st1. make_record_dir c (normalize_recordto a) (init_state w) = Inr ((), st1)"
  proof (cases "recordto (normalize_recordto a) = []")
    case True
    then show ?thesis by (simp add: make_record_dir_def skip_def)
  next
    case False
    from co obtain w' where
      "os_makedirs c (recordto (normalize_recordto a)) w = (Inr (), w')"
      unfolding cooperative_def by metis
    then show ?thesis using False by (simp add: make_record_dir_def call_def init_state_def)
  qed
  then obtain st1 where
    s1: "make_record_dir c (normalize_recordto a) (init_state w) = Inr ((), st1)" by blast
  have "\<exists>st. init_seed c (normalize_recordto a) st1 = Inr ((), st)"
  proof (cases "seed_truthy (seed (normalize_recordto a))")
    case True
    from co obtain w' where
      "np_random_seed c (the (seed (normalize_recordto a))) (world st1) = (Inr (), w')"
      unfolding cooperative_def by metis
    then show ?thesis using True by (simp add: init_seed_def call_def)
  next
    case False
    from co obtain t w1 where h1: "time_time c (world st1) = (Inr (Fin t), w1)"
      unfolding cooperative_def by metis
    from co obtain w2 where
      "np_random_seed c (if 0 \<le> t then \<lfloor>t\<rfloor> else \<lceil>t\<rceil>) w1 = (Inr (), w2)"
      unfolding cooperative_def by metis
    then show ?thesis using False h1
      by (simp add: init_seed_def call_def thenE_def lift_def)
  qed
  then show ?thesis
    using s1 cfg by (simp add: startup_def thenE_def skip_def lift_def)
qed

lemma build_model_total:
  assumes co: "cooperative c"
  shows "\<exists>ds m st'. build_model c a st = Inr ((ds, m), st')"
proof -
  from co obtain ds w1 where h1: "load_data c (training_data a) (world st) = (Inr ds, w1)"
    and ne: "observations ds \<noteq> []"
    unfolding cooperative_def by metis
  obtain ob obs where ob: "observations ds = ob # obs" using ne by (cases "observations ds") auto
  from co obtain m w2 where
    "Priors_model c (shape_of c ob) (state_dim a) (learning_rate a) (l1_reg a) (weights a)
       (Fin (1 / 1000000)) (tanh_units a) w1 = (Inr m, w2)"
    unfolding cooperative_def by metis
  then show ?thesis using h1 ob
    by (simp add: build_model_def thenE_def call_def lift_def item0_def)
qed

lemma qlearning_run_total:
  assumes co: "cooperative c" and cfg: "check_config (normalize_recordto a) = Inr ()"
    and ql: "qlearning a" and n: "0 \<le> num_epochs a"
  shows "\<exists>st. before_plots c a w = Inr ((), st)"
proof -
  from startup_total [OF co cfg] obtain st1 where s1: "startup c a w = Inr ((), st1)" by blast
  from build_model_total [OF co] obtain ds m st2 where
    s2: "build_model c (normalize_recordto a) st1 = Inr ((ds, m), st2)" by blast
  from experiment_total [OF co, of "normalize_recordto a" ds m st2] n obtain st3 where
    "qlearning_experiment c (normalize_recordto a) ds m st2 = Inr ((), st3)"
    by (auto simp: normalize_fields)
  then show ?thesis using s1 s2 ql
    by (simp add: before_plots_def thenE_def run_mode_def normalize_fields)
qed

lemma cooperative_stub: "cooperative stub"
  by (simp add: cooperative_def stub_def stub_dataset_def stub_history_def stub_stats_def)


subsection \<open>The claims on the Q-learning experiment\<close>





lemma stub_args_ok:
  "check_config (normalize_recordto stub_args) = Inr ()" "qlearning stub_args"
  "0 \<le> num_epochs stub_args"
  by (simp_all add: stub_args_def default_args_def normalize_recordto_def check_config_def
      fge_def)



text \<open>
  C2. In a Q-learning run that returned from the loop, the calls to the learner, the
  fit, the plugged policy, the agent and the rollout are, epoch by epoch, ten groups
  of the form \<open>trial_calls\<close>: a new learner with 100 kernels and the number of
  actions of the data, a fit on the states the training call of this epoch returned
  with discount 0.9, 10 iterations and \<open>recompute_mapping=True\<close>, and then the
  policy of this fit plugged, given to an agent and rolled out for 20 episodes.
  No other call takes a policy: a policy is used in its own trial only.
\<close>

theorem fresh_policy_each_trial:
  fixes c :: "('w, 'obj) collaborators"
  assumes run: "before_plots c a w = Inr (u, st)" and ql: "qlearning a"
  shows "\<exists>ds env eps.
     E_load_data (training_data a) (Inr ds) \<in> set (trace st) \<and>
     (\<exists>m. E_make_env (env_args ds) (visible_train a) 25 m (Inr env) \<in> set (trace st)) \<and>
     length eps = nat (num_epochs a) \<and>
     list_all (\<lambda>(s, ts). length ts = 10) eps \<and>
     map fst eps = map (\<lambda>(n, r, s, h). s) (trained (trace st)) \<and>
     filter is_trial_call (trace st) =
       concat (map (\<lambda>(s, ts). concat (map (trial_calls ds env s) ts)) eps)"
proof -
  from qlearning_trace [OF run ql] obtain ds env eps where
    ld: "E_load_data (training_data a) (Inr ds) \<in> set (trace st)"
    and mk: "\<exists>m. E_make_env (env_args ds) (visible_train a) 25 m (Inr env) \<in> set (trace st)"
    and len: "length eps = nat (num_epochs a)"
    and ok: "list_all epoch_ok eps"
    and tn: "trained (trace st) = map (\<lambda>ep. (1, [], fst (fst ep), snd (fst ep))) eps"
    and tc: "filter is_trial_call (trace st) =
       concat (map (\<lambda>ep. concat (map (trial_calls ds env (fst (fst ep))) (snd ep))) eps)"
    by blast
  let ?eps = "map (\<lambda>ep. (fst (fst ep), snd ep)) eps"
  have "list_all (\<lambda>(s, ts). length ts = 10) ?eps"
    using ok by (simp add: list_all_iff epoch_ok_def)
  moreover have "map fst ?eps = map (\<lambda>(n, r, s, h). s) (trained (trace st))"
    by (simp add: tn comp_def split_beta)
  moreover have "filter is_trial_call (trace st) =
       concat (map (\<lambda>(s, ts). concat (map (trial_calls ds env s) ts)) ?eps)"
    by (simp add: tc comp_def)
  ultimately show ?thesis using ld mk len
    by (intro exI[of _ ds] exI[of _ env] exI[of _ ?eps]) simp
qed

theorem fresh_policy_each_trial_witness:
  "\<exists>st ds env eps. before_plots stub stub_args 0 = Inr ((), st) \<and>
     E_load_data ''data.npz'' (Inr ds) \<in> set (trace st) \<and>
     length eps = 2 \<and>
     list_all (\<lambda>(s, ts). length ts = 10) eps \<and>
     map fst eps = map (\<lambda>(n, r, s, h). s) (trained (trace st)) \<and>
     filter is_trial_call (trace st) =
       concat (map (\<lambda>(s, ts). concat (map (trial_calls ds env s) ts)) eps)"
proof -
  from qlearning_run_total [OF cooperative_stub stub_args_ok, of 0]
  obtain st :: "(nat, nat) state" where st: "before_plots stub stub_args 0 = Inr ((), st)"
    by blast
  from fresh_policy_each_trial [OF st] obtain ds env eps where
    "E_load_data ''data.npz'' (Inr ds) \<in> set (trace st)"
    "length eps = 2" "list_all (\<lambda>(s, ts). length ts = 10) eps"
    "map fst eps = map (\<lambda>(n, r, s, h). s) (trained (trace st))"
    "filter is_trial_call (trace st) =
       concat (map (\<lambda>(s, ts). concat (map (trial_calls ds env s) ts)) eps)"
    by (auto simp: stub_args_def default_args_def)
  then show ?thesis using st by blast
qed

text \<open>
  C3. In a Q-learning run that returned from the loop there is one training call
  per epoch, each for \<open>num_epochs=1\<close>, and entry number \<open>k\<close> of each of the four loss
  records is the first value of the corresponding validation loss in the history
  that training call number \<open>k\<close> returned.
\<close>

theorem one_epoch_trained_and_recorded:
  fixes c :: "('w, 'obj) collaborators"
  assumes run: "before_plots c a w = Inr (u, st)" and ql: "qlearning a"
  shows "length (trained (trace st)) = nat (num_epochs a) \<and>
     list_all (\<lambda>(n, r, s, h). n = 1) (trained (trace st)) \<and>
     map (\<lambda>(n, r, s, h). item0 (val_t_loss h)) (trained (trace st)) =
       map Inr (temporalcoherence_loss_record st) \<and>
     map (\<lambda>(n, r, s, h). item0 (val_p_loss h)) (trained (trace st)) =
       map Inr (proportionality_loss_record st) \<and>
     map (\<lambda>(n, r, s, h). item0 (val_c_loss h)) (trained (trace st)) =
       map Inr (causality_loss_record st) \<and>
     map (\<lambda>(n, r, s, h). item0 (val_r_loss h)) (trained (trace st)) =
       map Inr (repeatability_loss_record st)"
proof -
  from qlearning_trace [OF run ql]
  obtain eps :: "(('obj \<times> history) \<times> 'obj trial list) list" where
    len: "length eps = nat (num_epochs a)"
    and ok: "list_all epoch_ok eps"
    and tn: "trained (trace st) = map (\<lambda>ep. (1, [], fst (fst ep), snd (fst ep))) eps"
    and recs: "temporalcoherence_loss_record st = map (\<lambda>ep. hd (val_t_loss (snd (fst ep)))) eps"
      "proportionality_loss_record st = map (\<lambda>ep. hd (val_p_loss (snd (fst ep)))) eps"
      "causality_loss_record st = map (\<lambda>ep. hd (val_c_loss (snd (fst ep)))) eps"
      "repeatability_loss_record st = map (\<lambda>ep. hd (val_r_loss (snd (fst ep)))) eps"
    by blast
  have item: "\<And>xs :: pyfloat list. xs \<noteq> [] \<Longrightarrow> item0 xs = Inr (hd xs)"
    by (simp add: item0_def split: list.splits)
  have "\<forall>ep \<in> set eps. val_t_loss (snd (fst ep)) \<noteq> [] \<and> val_p_loss (snd (fst ep)) \<noteq> [] \<and>
      val_c_loss (snd (fst ep)) \<noteq> [] \<and> val_r_loss (snd (fst ep)) \<noteq> []"
    using ok by (simp add: list_all_iff epoch_ok_def)
  then show ?thesis
    using len by (simp add: tn recs comp_def item list_all_iff split_beta)
qed

theorem one_epoch_trained_and_recorded_witness:
  "\<exists>st. before_plots stub stub_args 0 = Inr ((), st) \<and>
     length (trained (trace st)) = 2 \<and>
     list_all (\<lambda>(n, r, s, h). n = 1) (trained (trace st)) \<and>
     map (\<lambda>(n, r, s, h). item0 (val_t_loss h)) (trained (trace st)) =
       map Inr (temporalcoherence_loss_record st) \<and>
     map (\<lambda>(n, r, s, h). item0 (val_p_loss h)) (trained (trace st)) =
       map Inr (proportionality_loss_record st) \<and>
     map (\<lambda>(n, r, s, h). item0 (val_c_loss h)) (trained (trace st)) =
       map Inr (causality_loss_record st) \<and>
     map (\<lambda>(n, r, s, h). item0 (val_r_loss h)) (trained (trace st)) =
       map Inr (repeatability_loss_record st)"
proof -
  from qlearning_run_total [OF cooperative_stub stub_args_ok, of 0]
  obtain st :: "(nat, nat) state" where st: "before_plots stub stub_args 0 = Inr ((), st)"
    by blast
  from one_epoch_trained_and_recorded [OF st] show ?thesis using st
    by (intro exI[of _ st]) (simp add: stub_args_def default_args_def)
qed

text \<open>
  C5. In a Q-learning run that returned from the loop, the representation was plotted
  for the epochs \<open>learning_epoch\<close> of \<open>range(num_epochs)\<close> that are 0 or have
  \<open>learning_epoch+1\<close> divisible by 5, in order, and for no other (the plots carry
  the number \<open>learning_epoch+1\<close>).
\<close>

theorem representation_plotted_first_and_fifth:
  fixes c :: "('w, 'obj) collaborators"
  assumes run: "before_plots c a w = Inr (u, st)" and ql: "qlearning a"
  shows "plotted (trace st) =
     map (\<lambda>e. e + 1) (filter (\<lambda>e. e = 0 \<or> 5 dvd (e + 1)) (py_range (num_epochs a)))"
  using qlearning_trace [OF run ql] by blast

theorem representation_plotted_first_and_fifth_witness:
  "\<exists>st. before_plots stub (stub_args\<lparr>num_epochs := 12\<rparr>) 0 = Inr ((), st) \<and>
     plotted (trace st) = [1, 5, 10]"
proof -
  have ok: "check_config (normalize_recordto (stub_args\<lparr>num_epochs := 12\<rparr>)) = Inr ()"
    "qlearning (stub_args\<lparr>num_epochs := 12\<rparr>)" "0 \<le> num_epochs (stub_args\<lparr>num_epochs := 12\<rparr>)"
    by (simp_all add: stub_args_def default_args_def normalize_recordto_def check_config_def
        fge_def)
  from qlearning_run_total [OF cooperative_stub ok, of 0]
  obtain st :: "(nat, nat) state"
    where st: "before_plots stub (stub_args\<lparr>num_epochs := 12\<rparr>) 0 = Inr ((), st)"
    by blast
  have "py_range 12 = [0, 1, 2, 3, 4, 5, 6, 7, 8, 9, 10, 11]"
    by (simp add: py_range_def upt_rec)
  then have "plotted (trace st) = [1, 5, 10]"
    using representation_plotted_first_and_fifth [OF st ok(2)] by simp
  then show ?thesis using st by blast
qed



subsection \<open>Two runs at the edge\<close>

text \<open>
  On the stub, a Q-learning run with \<open>num_epochs = 0\<close> makes the calls below, draws
  the losses and then raises on the unbound name \<open>states\<close> (line 289); with
  \<open>num_epochs = -1\<close> the allocation of the tensor raises (line 146).
\<close>

lemma run_without_epoch:
  "trace (final_state (main stub (stub_args\<lparr>num_epochs := 0\<rparr>) 7)) =
     [E_makedirs ''out/'' (Inr ()),
      E_time (Inr (Fin 7)),
      E_seed 7 (Inr ()),
      E_load_data ''data.npz'' (Inr stub_dataset),
      E_Priors_model [16, 16, 3] 2 (Fin (1 / 10000)) (Fin (1 / 1000))
        (Fin 1, Fin 5, Fin 1, Fin 5) (Fin (1 / 1000000)) None (Inr 3),
      E_make_env 2 False 25 3 (Inr 5),
      E_plot_losses 0 [] [] [] [] False ''out/'' True (Inr ())]"
  "\<exists>st. main stub (stub_args\<lparr>num_epochs := 0\<rparr>) 7 = Inl (NameError ''states'', st)"
  "\<exists>st. main stub (stub_args\<lparr>num_epochs := - 1\<rparr>) 7 =
     Inl (ValueError msg_negative_dimensions, st)"
  by (simp_all add: main_def before_plots_def startup_def make_record_dir_def
      normalize_recordto_def stub_args_def default_args_def check_config_def fge_def
      thenE_def skip_def lift_def init_seed_def seed_truthy_def call_def stub_def
      init_state_def final_state_def build_model_def item0_def stub_dataset_def
      run_mode_def qlearning_experiment_def np_zeros4_def np_zeros_def py_range_def
      n_qlearnings_def n_test_episodes_def n_test_steps_def plotting_def unweight_def
      later_figures_def)


end
